theory Spec2Isabelle
  imports Complex_Main
begin

section \<open>The retirement engine of \<^verbatim>\<open>src/app.py\<close>\<close>

text \<open>
  The class \<^verbatim>\<open>RetirementPlanner\<close> is embedded shallowly. In the simulation and the
  solver Python floats are idealised as real numbers, so the statements about them are about
  the exact arithmetic of the formulas; the classifier is modelled with rounding to doubles;
  the one run-time failure of that arithmetic, a division by \<^verbatim>\<open>1 - tax_rate\<close> when it
  is zero, is a value of the error type. The horizon in years and the duration of a shock
  in years are integers, as the sliders of the page deliver them; months and years inside
  the loop are natural numbers.
\<close>

subsection \<open>Data\<close>

datatype py_error = ZeroDivisionError

text \<open>The dictionary \<^verbatim>\<open>inputs\<close>, one field per key.\<close>

record inputs =
  lump_sum :: real
  other_income :: real
  current_dividends :: real
  target_payout :: real
  tax_rate :: real
  horizon_years :: int
  inflation_rate :: real
  gdp_growth :: real
  expected_return :: real

text \<open>The attributes of the object: \<^verbatim>\<open>self.inputs\<close>, \<^verbatim>\<open>self.lump_sum\<close>,
  \<^verbatim>\<open>self.horizon_months\<close>.\<close>

record planner =
  self_inputs :: inputs
  self_lump_sum :: real
  self_horizon_months :: int

text \<open>\<^verbatim>\<open>__init__\<close>; \<^verbatim>\<open>int(h * 12)\<close> of an integer number of years is \<open>h * 12\<close>.\<close>

definition RetirementPlanner :: "inputs \<Rightarrow> planner" where
  "RetirementPlanner i =
     \<lparr>self_inputs = i, self_lump_sum = lump_sum i, self_horizon_months = horizon_years i * 12\<rparr>"

text \<open>One appended dictionary of \<^verbatim>\<open>data\<close>: a row of the returned frame.\<close>

record row =
  Year :: nat
  Expenses_Net :: real
  Withdrawal_Gross :: real
  Balance :: real

text \<open>The status message: \<^verbatim>\<open>"Solvent"\<close> or \<^verbatim>\<open>f"DEPLETED (Year {year})"\<close>.\<close>

datatype status = Solvent | DEPLETED nat

text \<open>The variables that live across iterations of the monthly loop. \<^verbatim>\<open>gross_withdrawal\<close>
  is assigned in every iteration and unbound before the first one, where it is never read;
  the model starts it at 0.\<close>

record sim =
  balance :: real
  current_div :: real
  current_expense :: real
  gross_withdrawal :: real
  data :: "row list"
  is_solvent :: bool
  insolvency_msg :: status

subsection \<open>\<^verbatim>\<open>calculate_viability\<close>\<close>

definition sim_init :: "planner \<Rightarrow> sim" where
  "sim_init self =
     \<lparr>balance = self_lump_sum self,
      current_div = current_dividends (self_inputs self),
      current_expense = target_payout (self_inputs self),
      gross_withdrawal = 0,
      data = [],
      is_solvent = True,
      insolvency_msg = Solvent\<rparr>"

text \<open>The body of the loop for month \<open>m\<close> (\<open>m \<ge> 1\<close>).\<close>

definition month :: "planner \<Rightarrow> real \<Rightarrow> int \<Rightarrow> nat \<Rightarrow> sim \<Rightarrow> py_error + sim" where
  "month self crash_rate crash_years m s =
     (let year = (m - 1) div 12 + 1;
          monthly_rate = (if int year \<le> crash_years then crash_rate / 12
                          else expected_return (self_inputs self) / 12);
          new_year = (m > 1 \<and> (m - 1) mod 12 = 0);
          cur_div = (if new_year then current_div s * (1 + gdp_growth (self_inputs self))
                     else current_div s);
          cur_expense = (if new_year then current_expense s * (1 + inflation_rate (self_inputs self))
                         else current_expense s);
          bal = balance s + balance s * monthly_rate;
          total_income = other_income (self_inputs self) + cur_div;
          net_shortfall = max 0 (cur_expense - total_income)
      in if 1 - tax_rate (self_inputs self) = 0 then Inl ZeroDivisionError
         else
           let gross = net_shortfall / (1 - tax_rate (self_inputs self));
               bal' = bal - gross;
               depleted = (bal' \<le> 0 \<and> is_solvent s);
               solvent' = (if depleted then False else is_solvent s);
               msg' = (if depleted then DEPLETED year else insolvency_msg s);
               bal'' = (if depleted then 0 else bal');
               data' = (if m mod 12 = 0 \<or> int m = self_horizon_months self
                        then data s @ [\<lparr>Year = year, Expenses_Net = cur_expense,
                                         Withdrawal_Gross = gross, Balance = bal''\<rparr>]
                        else data s)
           in Inr \<lparr>balance = bal'', current_div = cur_div, current_expense = cur_expense,
                   gross_withdrawal = gross, data = data', is_solvent = solvent',
                   insolvency_msg = msg'\<rparr>)"

text \<open>The loop over a list of month indices; an exception leaves it at once.\<close>

fun months :: "planner \<Rightarrow> real \<Rightarrow> int \<Rightarrow> nat list \<Rightarrow> sim \<Rightarrow> py_error + sim" where
  "months self crash_rate crash_years [] s = Inr s"
| "months self crash_rate crash_years (m # ms) s =
     (case month self crash_rate crash_years m s of
        Inl e \<Rightarrow> Inl e
      | Inr s' \<Rightarrow> months self crash_rate crash_years ms s')"

text \<open>\<^verbatim>\<open>range(1, self.horizon_months + 1)\<close>.\<close>

definition month_range :: "planner \<Rightarrow> nat list" where
  "month_range self = [1 ..< nat (self_horizon_months self + 1)]"

definition calculate_viability ::
  "planner \<Rightarrow> real \<Rightarrow> int \<Rightarrow> py_error + (row list \<times> bool \<times> status)" where
  "calculate_viability self crash_rate crash_years =
     (case months self crash_rate crash_years (month_range self) (sim_init self) of
        Inl e \<Rightarrow> Inl e
      | Inr s \<Rightarrow> Inr (data s, is_solvent s, insolvency_msg s))"

subsection \<open>\<^verbatim>\<open>solve_required_capital\<close>\<close>

text \<open>The bisection loop, \<open>n\<close> iterations to go. It assigns \<^verbatim>\<open>self.lump_sum\<close>, so the
  object is threaded through and returned, also when the simulation raises.\<close>

fun bisect ::
  "nat \<Rightarrow> planner \<Rightarrow> real \<Rightarrow> int \<Rightarrow> real \<Rightarrow> real \<Rightarrow> planner \<times> (py_error + real \<times> real)" where
  "bisect 0 self crash_rate crash_years low high = (self, Inr (low, high))"
| "bisect (Suc n) self crash_rate crash_years low high =
     (let mid = (low + high) / 2;
          self' = self\<lparr>self_lump_sum := mid\<rparr>
      in case calculate_viability self' crash_rate crash_years of
           Inl e \<Rightarrow> (self', Inl e)
         | Inr (_, solvent, _) \<Rightarrow>
             if solvent then bisect n self' crash_rate crash_years low mid
             else bisect n self' crash_rate crash_years mid high)"

definition solve_required_capital ::
  "planner \<Rightarrow> real \<Rightarrow> int \<Rightarrow> planner \<times> (py_error + real)" where
  "solve_required_capital self crash_rate crash_years =
     (let original_balance = self_lump_sum self;
          low = self_lump_sum self;
          high = self_lump_sum self * 10
      in case bisect 30 self crash_rate crash_years low high of
           (self', Inl e) \<Rightarrow> (self', Inl e)
         | (self', Inr (low', high')) \<Rightarrow>
             (self'\<lparr>self_lump_sum := original_balance\<rparr>, Inr high'))"

subsection \<open>Double-precision arithmetic\<close>

text \<open>
  The classifier compares a quotient of quotients with fixed thresholds, and there the
  rounding of Python's floats decides the tier. \<open>binary64 x\<close> is the IEEE 754
  double nearest to the real \<open>x\<close>, ties to the even significand, with gradual underflow
  and without overflow to infinity (the doubles of this model are the finite ones).
\<close>

text \<open>The nearest integer, ties to even.\<close>

definition round_even :: "real \<Rightarrow> int" where
  "round_even x =
     (let f = \<lfloor>x\<rfloor>; d = x - of_int f
      in if d < 1 / 2 then f
         else if 1 / 2 < d then f + 1
         else if even f then f else f + 1)"

text \<open>The exponent \<open>e\<close> of the last place of \<open>a * 2 ^ e\<close>: the scaled value is brought
  into \<open>[2 ^ 52, 2 ^ 53)\<close>, or the exponent stops at \<open>- 1074\<close>. The first argument bounds
  the number of steps; 2200 is enough for every finite double.\<close>

fun norm_exp :: "nat \<Rightarrow> real \<Rightarrow> int \<Rightarrow> int" where
  "norm_exp 0 a e = e"
| "norm_exp (Suc n) a e =
     (if 2 ^ 53 \<le> a then norm_exp n (a / 2) (e + 1)
      else if a < 2 ^ 52 \<and> - 1074 < e then norm_exp n (a * 2) (e - 1)
      else e)"

definition binary64 :: "real \<Rightarrow> real" where
  "binary64 x =
     (if x = 0 then 0
      else let e = norm_exp 2200 \<bar>x\<bar> 0
           in of_int (round_even (x / 2 powi e)) * 2 powi e)"

subsection \<open>\<^verbatim>\<open>calculate_swr_health\<close>\<close>

text \<open>
  The fields hold the values of the Python numbers. \<^verbatim>\<open>initial_gap\<close> is a sum and a
  difference of the monthly amounts, which the page delivers as integers, and is exact;
  \<^verbatim>\<open>1 - tax_rate\<close>, the product and the two quotients are rounded, and the thresholds
  are the doubles of the literals. The divisor is 0 when the tax rate is 1: the difference
  of two doubles rounds to 0 only when it is 0.
\<close>

definition calculate_swr_health :: "planner \<Rightarrow> py_error + (real \<times> string)" where
  "calculate_swr_health self =
     (let initial_gap = target_payout (self_inputs self)
                        - (other_income (self_inputs self) + current_dividends (self_inputs self))
      in if initial_gap \<le> 0 then Inr (0, ''SECURE'')
         else if 1 - tax_rate (self_inputs self) = 0 then Inl ZeroDivisionError
         else
           let gross_annual = binary64 (binary64 (initial_gap * 12)
                                        / binary64 (1 - tax_rate (self_inputs self)))
           in if self_lump_sum self \<le> 0 then Inr (0, ''CRITICAL'')
              else
                let rate = binary64 (gross_annual / self_lump_sum self)
                in if rate \<le> binary64 0.035 then Inr (rate, ''EXCELLENT (< 3.5%)'')
                   else if rate \<le> binary64 0.045 then Inr (rate, ''GOOD (Industry Std)'')
                   else if rate \<le> binary64 0.06 then Inr (rate, ''RISKY (High Risk)'')
                   else Inr (rate, ''DANGER (> 6.0%)''))"

subsection \<open>Auxiliary notions for the statements\<close>

text \<open>The monthly rate that the loop body selects in month \<open>m\<close>.\<close>

definition rate_of :: "planner \<Rightarrow> real \<Rightarrow> int \<Rightarrow> nat \<Rightarrow> real" where
  "rate_of self crash_rate crash_years m =
     (if int ((m - 1) div 12 + 1) \<le> crash_years then crash_rate / 12
      else expected_return (self_inputs self) / 12)"

text \<open>One month of a run in which no division fails (where \<open>month\<close> raises, the state
  is kept).\<close>

definition month_ok :: "planner \<Rightarrow> real \<Rightarrow> int \<Rightarrow> nat \<Rightarrow> sim \<Rightarrow> sim" where
  "month_ok self crash_rate crash_years m s =
     (case month self crash_rate crash_years m s of Inl e \<Rightarrow> s | Inr s' \<Rightarrow> s')"

text \<open>The loop state after the first \<open>k\<close> months of such a run.\<close>

primrec run :: "planner \<Rightarrow> real \<Rightarrow> int \<Rightarrow> nat \<Rightarrow> sim" where
  "run self crash_rate crash_years 0 = sim_init self"
| "run self crash_rate crash_years (Suc k) =
     month_ok self crash_rate crash_years (Suc k) (run self crash_rate crash_years k)"

text \<open>The verdict of the simulation when the starting capital is replaced by \<open>x\<close>, as the
  solver does it.\<close>

definition solvent_at :: "planner \<Rightarrow> real \<Rightarrow> int \<Rightarrow> real \<Rightarrow> bool" where
  "solvent_at self crash_rate crash_years x =
     (case calculate_viability (self\<lparr>self_lump_sum := x\<rparr>) crash_rate crash_years of
        Inl e \<Rightarrow> False
      | Inr (d, solvent, msg) \<Rightarrow> solvent)"

text \<open>The balance sampled for year \<open>y\<close> in a returned frame.\<close>

definition balance_at_year :: "row list \<Rightarrow> nat \<Rightarrow> real option" where
  "balance_at_year d y = map_option Balance (find (\<lambda>r. Year r = y) d)"

text \<open>The row that the loop appends at the end of year \<open>y\<close>.\<close>

definition sample :: "planner \<Rightarrow> real \<Rightarrow> int \<Rightarrow> nat \<Rightarrow> row" where
  "sample self crash_rate crash_years y =
     \<lparr>Year = y,
      Expenses_Net = current_expense (run self crash_rate crash_years (12 * y)),
      Withdrawal_Gross = gross_withdrawal (run self crash_rate crash_years (12 * y)),
      Balance = balance (run self crash_rate crash_years (12 * y))\<rparr>"

text \<open>The gross withdrawal of every month of a year, after \<open>y\<close> escalations of expense
  and dividends.\<close>

definition withdrawal_in_year :: "planner \<Rightarrow> nat \<Rightarrow> real" where
  "withdrawal_in_year self y =
     max 0 (target_payout (self_inputs self) * (1 + inflation_rate (self_inputs self)) ^ y
            - (other_income (self_inputs self)
               + current_dividends (self_inputs self) * (1 + gdp_growth (self_inputs self)) ^ y))
     / (1 - tax_rate (self_inputs self))"

text \<open>\<open>j\<close> months of growth by the factor \<open>G\<close> and withdrawal of \<open>w\<close>, without the
  depletion test.\<close>

primrec compound :: "real \<Rightarrow> real \<Rightarrow> nat \<Rightarrow> real \<Rightarrow> real" where
  "compound G w 0 b = b"
| "compound G w (Suc j) b = compound G w j b * G - w"

subsection \<open>Concrete scenarios\<close>

text \<open>A scenario without income and without tax, inflation or dividend growth.\<close>

definition plain :: "real \<Rightarrow> real \<Rightarrow> real \<Rightarrow> int \<Rightarrow> real \<Rightarrow> planner" where
  "plain capital spend tax years ret =
     RetirementPlanner
       \<lparr>lump_sum = capital, other_income = 0, current_dividends = 0, target_payout = spend,
        tax_rate = tax, horizon_years = years, inflation_rate = 0, gdp_growth = 0,
        expected_return = ret\<rparr>"

text \<open>The scenario of the regression fixture.\<close>

definition fixture_inputs :: inputs where
  "fixture_inputs =
     \<lparr>lump_sum = 500000, other_income = 1500, current_dividends = 500, target_payout = 4000,
      tax_rate = 0.15, horizon_years = 25, inflation_rate = 0.025, gdp_growth = 0.03,
      expected_return = 0.07\<rparr>"

section \<open>The monthly loop\<close>

subsection \<open>One month\<close>

lemma month_Inr:
  "tax_rate (self_inputs self) \<noteq> 1 \<Longrightarrow> month self cr cy m s = Inr (month_ok self cr cy m s)"
  by (simp add: month_ok_def month_def Let_def)

lemma month_Inl:
  "tax_rate (self_inputs self) = 1 \<Longrightarrow> month self cr cy m s = Inl ZeroDivisionError"
  by (simp add: month_def Let_def)

lemma month_ok_current_div:
  "tax_rate (self_inputs self) \<noteq> 1 \<Longrightarrow>
   current_div (month_ok self cr cy m s) =
     (if 1 < m \<and> (m - 1) mod 12 = 0 then current_div s * (1 + gdp_growth (self_inputs self))
      else current_div s)"
  unfolding month_ok_def month_def Let_def by simp

lemma month_ok_current_expense:
  "tax_rate (self_inputs self) \<noteq> 1 \<Longrightarrow>
   current_expense (month_ok self cr cy m s) =
     (if 1 < m \<and> (m - 1) mod 12 = 0 then current_expense s * (1 + inflation_rate (self_inputs self))
      else current_expense s)"
  unfolding month_ok_def month_def Let_def by simp

lemma month_ok_gross_withdrawal:
  "tax_rate (self_inputs self) \<noteq> 1 \<Longrightarrow>
   gross_withdrawal (month_ok self cr cy m s) =
     max 0 (current_expense (month_ok self cr cy m s)
            - (other_income (self_inputs self) + current_div (month_ok self cr cy m s)))
     / (1 - tax_rate (self_inputs self))"
  unfolding month_ok_def month_def Let_def by simp

lemma month_ok_balance:
  "tax_rate (self_inputs self) \<noteq> 1 \<Longrightarrow>
   balance (month_ok self cr cy m s) =
     (if balance s + balance s * rate_of self cr cy m
           - gross_withdrawal (month_ok self cr cy m s) \<le> 0 \<and> is_solvent s
      then 0
      else balance s + balance s * rate_of self cr cy m
           - gross_withdrawal (month_ok self cr cy m s))"
  unfolding month_ok_def month_def rate_of_def Let_def by simp

lemma month_ok_is_solvent:
  "tax_rate (self_inputs self) \<noteq> 1 \<Longrightarrow>
   is_solvent (month_ok self cr cy m s) =
     (is_solvent s
      \<and> \<not> balance s + balance s * rate_of self cr cy m
            - gross_withdrawal (month_ok self cr cy m s) \<le> 0)"
  unfolding month_ok_def month_def rate_of_def Let_def by auto

lemma month_ok_insolvency_msg:
  "tax_rate (self_inputs self) \<noteq> 1 \<Longrightarrow>
   insolvency_msg (month_ok self cr cy m s) =
     (if balance s + balance s * rate_of self cr cy m
           - gross_withdrawal (month_ok self cr cy m s) \<le> 0 \<and> is_solvent s
      then DEPLETED ((m - 1) div 12 + 1)
      else insolvency_msg s)"
  unfolding month_ok_def month_def rate_of_def Let_def by simp

lemma month_ok_data:
  "tax_rate (self_inputs self) \<noteq> 1 \<Longrightarrow>
   data (month_ok self cr cy m s) =
     (if m mod 12 = 0 \<or> int m = self_horizon_months self
      then data s @ [\<lparr>Year = (m - 1) div 12 + 1,
                       Expenses_Net = current_expense (month_ok self cr cy m s),
                       Withdrawal_Gross = gross_withdrawal (month_ok self cr cy m s),
                       Balance = balance (month_ok self cr cy m s)\<rparr>]
      else data s)"
  unfolding month_ok_def month_def rate_of_def Let_def by simp

lemma months_append:
  "months self cr cy (xs @ ys) s =
     (case months self cr cy xs s of Inl e \<Rightarrow> Inl e | Inr s' \<Rightarrow> months self cr cy ys s')"
  by (induction xs arbitrary: s) (auto split: sum.splits)

lemma months_upt_run:
  "tax_rate (self_inputs self) \<noteq> 1 \<Longrightarrow>
   months self cr cy [1 ..< Suc k] (sim_init self) = Inr (run self cr cy k)"
proof (induction k)
  case 0
  show ?case by simp
next
  case (Suc k)
  have "[1 ..< Suc (Suc k)] = [1 ..< Suc k] @ [Suc k]"
    by simp
  then show ?case
    using Suc by (simp add: months_append month_Inr del: upt_Suc)
qed

lemma month_range_upt: "month_range self = [1 ..< Suc (nat (self_horizon_months self))]"
  by (cases "0 \<le> self_horizon_months self") (simp_all add: month_range_def nat_add_distrib)

lemma calculate_viability_run:
  "tax_rate (self_inputs self) \<noteq> 1 \<Longrightarrow>
   calculate_viability self cr cy =
     Inr (data (run self cr cy (nat (self_horizon_months self))),
          is_solvent (run self cr cy (nat (self_horizon_months self))),
          insolvency_msg (run self cr cy (nat (self_horizon_months self))))"
proof -
  assume t: "tax_rate (self_inputs self) \<noteq> 1"
  show ?thesis
    unfolding calculate_viability_def month_range_upt months_upt_run [OF t] by simp
qed

lemma calculate_viability_tax_one:
  "tax_rate (self_inputs self) = 1 \<Longrightarrow>
   calculate_viability self cr cy =
     (if 1 \<le> self_horizon_months self then Inl ZeroDivisionError
      else Inr ([], True, Solvent))"
proof (cases "1 \<le> self_horizon_months self")
  case True
  assume t: "tax_rate (self_inputs self) = 1"
  from True obtain k where "nat (self_horizon_months self) = Suc k"
    by (cases "nat (self_horizon_months self)") auto
  then have "month_range self = 1 # [Suc 1 ..< Suc (Suc k)]"
    unfolding month_range_upt by (simp add: upt_conv_Cons del: upt_Suc)
  then show ?thesis
    using True t by (simp add: calculate_viability_def month_Inl)
next
  case False
  then have "month_range self = []"
    by (simp add: month_range_upt)
  then show ?thesis
    using False by (simp add: calculate_viability_def sim_init_def)
qed

subsection \<open>Runs compared\<close>

lemma rate_of_inputs:
  "self_inputs p = self_inputs q \<Longrightarrow> rate_of p cr cy m = rate_of q cr cy m"
  by (simp add: rate_of_def)

lemma rate_of_no_shock: "rate_of p cr 0 m = expected_return (self_inputs p) / 12"
  by (simp add: rate_of_def)

lemma rate_of_shock_two_years:
  "m \<le> 24 \<Longrightarrow> rate_of p cr 2 m = cr / 12"
  by (simp add: rate_of_def) linarith

lemma run_income:
  assumes "self_inputs p = self_inputs q" and "tax_rate (self_inputs p) \<noteq> 1"
  shows "current_div (run p cr cy k) = current_div (run q cr' cy' k)
       \<and> current_expense (run p cr cy k) = current_expense (run q cr' cy' k)"
proof (induction k)
  case 0
  show ?case using assms by (simp add: sim_init_def)
next
  case (Suc k)
  then show ?case
    using assms by (simp add: month_ok_current_div month_ok_current_expense sim_init_def)
qed

lemma run_gross_withdrawal:
  assumes "self_inputs p = self_inputs q" and "tax_rate (self_inputs p) \<noteq> 1"
  shows "gross_withdrawal (run p cr cy (Suc k)) = gross_withdrawal (run q cr' cy' (Suc k))"
proof -
  have "current_div (run p cr cy (Suc k)) = current_div (run q cr' cy' (Suc k))"
    and "current_expense (run p cr cy (Suc k)) = current_expense (run q cr' cy' (Suc k))"
    using run_income [OF assms] by blast+
  then have "current_div (month_ok p cr cy (Suc k) (run p cr cy k))
               = current_div (month_ok q cr' cy' (Suc k) (run q cr' cy' k))"
    and "current_expense (month_ok p cr cy (Suc k) (run p cr cy k))
               = current_expense (month_ok q cr' cy' (Suc k) (run q cr' cy' k))"
    by simp_all
  then show ?thesis
    using assms by (simp add: month_ok_gross_withdrawal)
qed

lemma gross_withdrawal_nonneg:
  assumes "tax_rate (self_inputs p) < 1"
  shows "0 \<le> gross_withdrawal (run p cr cy (Suc k))"
  using assms by (simp add: month_ok_gross_withdrawal)

text \<open>One loop body applied to two balances, the same rate and the same withdrawal.\<close>

lemma run_Suc_balance:
  assumes "tax_rate (self_inputs p) \<noteq> 1"
  shows "balance (run p cr cy (Suc k)) =
     (if balance (run p cr cy k) * (1 + rate_of p cr cy (Suc k))
           - gross_withdrawal (run p cr cy (Suc k)) \<le> 0 \<and> is_solvent (run p cr cy k)
      then 0
      else balance (run p cr cy k) * (1 + rate_of p cr cy (Suc k))
           - gross_withdrawal (run p cr cy (Suc k)))"
  using assms by (simp add: month_ok_balance distrib_left)

lemma run_Suc_is_solvent:
  assumes "tax_rate (self_inputs p) \<noteq> 1"
  shows "is_solvent (run p cr cy (Suc k)) =
     (is_solvent (run p cr cy k)
      \<and> 0 < balance (run p cr cy k) * (1 + rate_of p cr cy (Suc k))
             - gross_withdrawal (run p cr cy (Suc k)))"
  using assms by (simp add: month_ok_is_solvent distrib_left not_le)

lemma run_mono:
  assumes inp: "self_inputs p = self_inputs q"
    and tax: "tax_rate (self_inputs p) \<noteq> 1"
    and cap: "self_lump_sum p \<le> self_lump_sum q"
    and rates: "\<And>m. 1 \<le> m \<Longrightarrow> m \<le> k \<Longrightarrow> - 1 \<le> rate_of p cr cy m"
  shows "balance (run p cr cy k) \<le> balance (run q cr cy k)
       \<and> (is_solvent (run p cr cy k) \<longrightarrow> is_solvent (run q cr cy k))"
  using rates
proof (induction k)
  case 0
  show ?case using cap by (simp add: sim_init_def)
next
  case (Suc k)
  have tq: "tax_rate (self_inputs q) \<noteq> 1"
    using inp tax by simp
  have ih: "balance (run p cr cy k) \<le> balance (run q cr cy k)"
    "is_solvent (run p cr cy k) \<longrightarrow> is_solvent (run q cr cy k)"
    using Suc by simp_all
  define r where "r = rate_of p cr cy (Suc k)"
  define w where "w = gross_withdrawal (run p cr cy (Suc k))"
  have rq: "rate_of q cr cy (Suc k) = r"
    unfolding r_def using rate_of_inputs [OF inp] by simp
  have wq: "gross_withdrawal (run q cr cy (Suc k)) = w"
    unfolding w_def by (rule run_gross_withdrawal [OF inp tax, symmetric])
  have "0 \<le> 1 + r"
    using Suc.prems [of "Suc k"] by (simp add: r_def)
  then have le: "balance (run p cr cy k) * (1 + r) - w \<le> balance (run q cr cy k) * (1 + r) - w"
    using ih(1) by (simp add: mult_right_mono)
  have bp: "balance (run p cr cy (Suc k)) =
     (if balance (run p cr cy k) * (1 + r) - w \<le> 0 \<and> is_solvent (run p cr cy k) then 0
      else balance (run p cr cy k) * (1 + r) - w)"
    unfolding r_def w_def by (rule run_Suc_balance [OF tax])
  have bq: "balance (run q cr cy (Suc k)) =
     (if balance (run q cr cy k) * (1 + r) - w \<le> 0 \<and> is_solvent (run q cr cy k) then 0
      else balance (run q cr cy k) * (1 + r) - w)"
    using run_Suc_balance [OF tq, of cr cy k] unfolding rq wq .
  have sp: "is_solvent (run p cr cy (Suc k)) =
     (is_solvent (run p cr cy k) \<and> 0 < balance (run p cr cy k) * (1 + r) - w)"
    unfolding r_def w_def by (rule run_Suc_is_solvent [OF tax])
  have sq: "is_solvent (run q cr cy (Suc k)) =
     (is_solvent (run q cr cy k) \<and> 0 < balance (run q cr cy k) * (1 + r) - w)"
    using run_Suc_is_solvent [OF tq, of cr cy k] unfolding rq wq .
  show ?case
    unfolding bp bq sp sq using le ih(2) by auto
qed

lemma run_solvent_prefix:
  assumes "tax_rate (self_inputs p) \<noteq> 1" and "is_solvent (run p cr cy k)" and "j \<le> k"
  shows "is_solvent (run p cr cy j)"
  using assms(2,3)
proof (induction k)
  case 0
  then show ?case by simp
next
  case (Suc k)
  show ?case
  proof (cases "j = Suc k")
    case True
    then show ?thesis using Suc.prems by simp
  next
    case False
    moreover have "is_solvent (run p cr cy k)"
      using Suc.prems(1) run_Suc_is_solvent [OF assms(1), of cr cy k] by simp
    ultimately show ?thesis
      using Suc by simp
  qed
qed

lemma run_solvent_positive:
  assumes "tax_rate (self_inputs p) \<noteq> 1" and "is_solvent (run p cr cy (Suc k))"
  shows "0 < balance (run p cr cy (Suc k))"
  using assms run_Suc_is_solvent [OF assms(1), of cr cy k] run_Suc_balance [OF assms(1), of cr cy k]
  by simp

lemma run_insolvent_nonpositive:
  assumes tax: "tax_rate (self_inputs p) < 1"
    and rates: "\<And>m. 1 \<le> m \<Longrightarrow> m \<le> k \<Longrightarrow> - 1 \<le> rate_of p cr cy m"
    and "\<not> is_solvent (run p cr cy k)"
  shows "balance (run p cr cy k) \<le> 0"
  using rates assms(3)
proof (induction k)
  case 0
  then show ?case by (simp add: sim_init_def)
next
  case (Suc k)
  have t: "tax_rate (self_inputs p) \<noteq> 1" using tax by simp
  have w: "0 \<le> gross_withdrawal (run p cr cy (Suc k))"
    by (rule gross_withdrawal_nonneg [OF tax])
  have r: "0 \<le> 1 + rate_of p cr cy (Suc k)"
    using Suc.prems(1) [of "Suc k"] by simp
  show ?case
  proof (cases "is_solvent (run p cr cy k)")
    case True
    then show ?thesis
      using Suc.prems(2) run_Suc_is_solvent [OF t, of cr cy k] run_Suc_balance [OF t, of cr cy k]
      by simp
  next
    case False
    then have "balance (run p cr cy k) \<le> 0"
      using Suc by simp
    then have "balance (run p cr cy k) * (1 + rate_of p cr cy (Suc k)) \<le> 0"
      using r by (simp add: mult_nonpos_nonneg)
    then show ?thesis
      using False w run_Suc_balance [OF t, of cr cy k] by simp
  qed
qed

text \<open>A solvent run never meets a growth factor of 0 or below.\<close>

lemma run_solvent_rate:
  assumes tax: "tax_rate (self_inputs p) < 1"
    and cap: "0 \<le> self_lump_sum p"
    and sol: "is_solvent (run p cr cy k)"
    and m: "1 \<le> m" "m \<le> k"
  shows "- 1 < rate_of p cr cy m"
proof -
  have t: "tax_rate (self_inputs p) \<noteq> 1" using tax by simp
  obtain j where j: "m = Suc j" using m(1) by (cases m) auto
  have sm: "is_solvent (run p cr cy (Suc j))"
    using run_solvent_prefix [OF t sol m(2)] j by simp
  then have pos: "0 < balance (run p cr cy j) * (1 + rate_of p cr cy (Suc j))
                    - gross_withdrawal (run p cr cy (Suc j))"
    and sj: "is_solvent (run p cr cy j)"
    using run_Suc_is_solvent [OF t, of cr cy j] by simp_all
  have b: "0 \<le> balance (run p cr cy j)"
  proof (cases j)
    case 0
    then show ?thesis using cap by (simp add: sim_init_def)
  next
    case (Suc i)
    then show ?thesis using run_solvent_positive [OF t, of cr cy i] sj by simp
  qed
  have w: "0 \<le> gross_withdrawal (run p cr cy (Suc j))"
    by (rule gross_withdrawal_nonneg [OF tax])
  have "0 < balance (run p cr cy j) * (1 + rate_of p cr cy (Suc j))"
    using pos w by simp
  then have "0 < 1 + rate_of p cr cy (Suc j)"
    using b by (simp add: zero_less_mult_iff)
  then show ?thesis
    using j by simp
qed

subsection \<open>The sampled trajectory\<close>

lemma run_data:
  assumes tax: "tax_rate (self_inputs self) \<noteq> 1"
    and hm: "self_horizon_months self = int (12 * n)"
    and k: "k \<le> 12 * n"
  shows "data (run self cr cy k) = map (sample self cr cy) [1 ..< Suc (k div 12)]"
  using k
proof (induction k)
  case 0
  show ?case by (simp add: sim_init_def)
next
  case (Suc k)
  then have ih: "data (run self cr cy k) = map (sample self cr cy) [1 ..< Suc (k div 12)]"
    by simp
  have d: "data (run self cr cy (Suc k)) =
     (if Suc k mod 12 = 0 \<or> int (Suc k) = self_horizon_months self
      then data (run self cr cy k) @
           [\<lparr>Year = k div 12 + 1,
             Expenses_Net = current_expense (run self cr cy (Suc k)),
             Withdrawal_Gross = gross_withdrawal (run self cr cy (Suc k)),
             Balance = balance (run self cr cy (Suc k))\<rparr>]
      else data (run self cr cy k))"
    using month_ok_data [OF tax, of cr cy "Suc k" "run self cr cy k"] by simp
  show ?case
  proof (cases "Suc k mod 12 = 0")
    case True
    then have dv: "Suc k div 12 = Suc (k div 12)"
      by (simp add: div_Suc)
    have "12 * (Suc k div 12) = Suc k"
      using True by (metis mult.commute div_mult_self_is_m mod_0_imp_dvd dvd_div_mult_self zero_less_numeral)
    then have e: "12 * Suc (k div 12) = Suc k"
      using dv by simp
    have "sample self cr cy (Suc (k div 12)) =
       \<lparr>Year = k div 12 + 1,
        Expenses_Net = current_expense (run self cr cy (Suc k)),
        Withdrawal_Gross = gross_withdrawal (run self cr cy (Suc k)),
        Balance = balance (run self cr cy (Suc k))\<rparr>"
      unfolding sample_def e by simp
    then show ?thesis
      unfolding d dv ih using True by simp
  next
    case False
    then have dv: "Suc k div 12 = k div 12"
      by (simp add: div_Suc)
    have "int (Suc k) \<noteq> self_horizon_months self"
    proof
      assume "int (Suc k) = self_horizon_months self"
      then have "Suc k = 12 * n"
        using hm by linarith
      then show False
        using False by simp
    qed
    then show ?thesis
      unfolding d dv ih using False by simp
  qed
qed

lemma find_sample:
  "y \<in> set ys \<Longrightarrow> find (\<lambda>r. Year r = y) (map (sample self cr cy) ys) = Some (sample self cr cy y)"
  by (induction ys) (auto simp: sample_def)

lemma horizon_nat:
  assumes "self_horizon_months self = int (12 * n)"
  shows "nat (self_horizon_months self) = 12 * n"
  using assms by simp

lemma calculate_viability_samples:
  assumes tax: "tax_rate (self_inputs self) \<noteq> 1"
    and hm: "self_horizon_months self = int (12 * n)"
  shows "calculate_viability self cr cy =
     Inr (map (sample self cr cy) [1 ..< Suc n],
          is_solvent (run self cr cy (12 * n)),
          insolvency_msg (run self cr cy (12 * n)))"
proof -
  have "data (run self cr cy (12 * n)) = map (sample self cr cy) [1 ..< Suc n]"
    using run_data [OF tax hm, of "12 * n" cr cy] by simp
  then show ?thesis
    unfolding calculate_viability_run [OF tax] horizon_nat [OF hm] by simp
qed

lemma balance_at_year_samples:
  assumes "1 \<le> y" and "y \<le> n"
  shows "balance_at_year (map (sample self cr cy) [1 ..< Suc n]) y
         = Some (balance (run self cr cy (12 * y)))"
proof -
  have "y \<in> set [1 ..< Suc n]"
    using assms by auto
  then show ?thesis
    unfolding balance_at_year_def find_sample [OF \<open>y \<in> set [1 ..< Suc n]\<close>]
    by (simp add: sample_def)
qed

lemma first_year_income:
  assumes tax: "tax_rate (self_inputs self) \<noteq> 1" and k: "k \<le> 12"
  shows "current_div (run self cr cy k) = current_dividends (self_inputs self)
       \<and> current_expense (run self cr cy k) = target_payout (self_inputs self)"
  using k
proof (induction k)
  case 0
  show ?case by (simp add: sim_init_def)
next
  case (Suc k)
  then have "k < 12" by simp
  then have "\<not> (1 < Suc k \<and> (Suc k - 1) mod 12 = 0)"
    by auto
  then show ?case
    using Suc tax
    by (simp only: run.simps month_ok_current_div [OF tax] month_ok_current_expense [OF tax] if_False)
qed

lemma first_year_withdrawal:
  assumes tax: "tax_rate (self_inputs self) \<noteq> 1" and k: "1 \<le> k" "k \<le> 12"
  shows "gross_withdrawal (run self cr cy k) =
     max 0 (target_payout (self_inputs self)
            - (other_income (self_inputs self) + current_dividends (self_inputs self)))
     / (1 - tax_rate (self_inputs self))"
proof -
  obtain j where j: "k = Suc j" using k(1) by (cases k) auto
  have "gross_withdrawal (run self cr cy (Suc j)) =
     max 0 (current_expense (run self cr cy (Suc j))
            - (other_income (self_inputs self) + current_div (run self cr cy (Suc j))))
     / (1 - tax_rate (self_inputs self))"
    using month_ok_gross_withdrawal [OF tax, of cr cy "Suc j" "run self cr cy j"] by simp
  then show ?thesis
    using first_year_income [OF tax k(2), of cr cy] j by simp
qed

subsection \<open>After depletion, and more capital\<close>

lemma run_depleted_stays:
  assumes tax: "tax_rate (self_inputs p) \<noteq> 1" and dep: "\<not> is_solvent (run p cr cy k)"
  shows "\<not> is_solvent (run p cr cy (k + j))
       \<and> insolvency_msg (run p cr cy (k + j)) = insolvency_msg (run p cr cy k)"
proof (induction j)
  case 0
  show ?case using dep by simp
next
  case (Suc j)
  then show ?case
    by (simp add: month_ok_is_solvent [OF tax] month_ok_insolvency_msg [OF tax])
qed

lemma run_first_depletion:
  assumes tax: "tax_rate (self_inputs p) \<noteq> 1"
    and "is_solvent (run p cr cy k)" and "\<not> is_solvent (run p cr cy (Suc k))"
  shows "insolvency_msg (run p cr cy (Suc k)) = DEPLETED (k div 12 + 1)
       \<and> balance (run p cr cy (Suc k)) = 0"
  using assms(2,3)
  by (simp add: month_ok_is_solvent [OF tax] month_ok_insolvency_msg [OF tax]
        month_ok_balance [OF tax])

lemma run_last_row:
  assumes tax: "tax_rate (self_inputs p) \<noteq> 1" and hm: "1 \<le> self_horizon_months p"
  shows "data (run p cr cy (nat (self_horizon_months p))) \<noteq> []
       \<and> Balance (last (data (run p cr cy (nat (self_horizon_months p)))))
           = balance (run p cr cy (nat (self_horizon_months p)))"
proof -
  obtain k where k: "nat (self_horizon_months p) = Suc k"
    using hm by (cases "nat (self_horizon_months p)") auto
  then have "int (Suc k) = self_horizon_months p"
    using hm by linarith
  then have "data (month_ok p cr cy (Suc k) (run p cr cy k)) =
      data (run p cr cy k) @
        [\<lparr>Year = (Suc k - 1) div 12 + 1,
          Expenses_Net = current_expense (month_ok p cr cy (Suc k) (run p cr cy k)),
          Withdrawal_Gross = gross_withdrawal (month_ok p cr cy (Suc k) (run p cr cy k)),
          Balance = balance (month_ok p cr cy (Suc k) (run p cr cy k))\<rparr>]"
    unfolding month_ok_data [OF tax] by (simp only: simp_thms if_True)
  then show ?thesis
    unfolding k by simp
qed

lemma calculate_viability_mono:
  assumes tax: "tax_rate (self_inputs self) \<noteq> 1"
    and cap: "c1 \<le> c2"
    and ret: "- 12 \<le> expected_return (self_inputs self)"
    and crash: "1 \<le> cy \<longrightarrow> - 12 \<le> cr"
  shows "\<exists>d1 s1 m1 d2 s2 m2.
      calculate_viability (self\<lparr>self_lump_sum := c1\<rparr>) cr cy = Inr (d1, s1, m1)
      \<and> calculate_viability (self\<lparr>self_lump_sum := c2\<rparr>) cr cy = Inr (d2, s2, m2)
      \<and> (s1 \<longrightarrow> s2)
      \<and> (1 \<le> self_horizon_months self \<longrightarrow>
            d1 \<noteq> [] \<and> d2 \<noteq> [] \<and> Balance (last d1) \<le> Balance (last d2))"
proof -
  define p where "p = self\<lparr>self_lump_sum := c1\<rparr>"
  define q where "q = self\<lparr>self_lump_sum := c2\<rparr>"
  define N where "N = nat (self_horizon_months self)"
  have inp: "self_inputs p = self_inputs q"
    by (simp add: p_def q_def)
  have tp: "tax_rate (self_inputs p) \<noteq> 1" and tq: "tax_rate (self_inputs q) \<noteq> 1"
    using tax by (simp_all add: p_def q_def)
  have hp: "self_horizon_months p = self_horizon_months self"
    and hq: "self_horizon_months q = self_horizon_months self"
    by (simp_all add: p_def q_def)
  have le: "self_lump_sum p \<le> self_lump_sum q"
    using cap by (simp add: p_def q_def)
  have r: "- 1 \<le> rate_of p cr cy m" for m
    using ret crash by (auto simp: rate_of_def p_def)
  have m: "balance (run p cr cy N) \<le> balance (run q cr cy N)"
    "is_solvent (run p cr cy N) \<longrightarrow> is_solvent (run q cr cy N)"
    using run_mono [OF inp tp le, of N cr cy] r by blast+
  have cp: "calculate_viability p cr cy =
      Inr (data (run p cr cy N), is_solvent (run p cr cy N), insolvency_msg (run p cr cy N))"
    using calculate_viability_run [OF tp, of cr cy] unfolding hp N_def .
  have cq: "calculate_viability q cr cy =
      Inr (data (run q cr cy N), is_solvent (run q cr cy N), insolvency_msg (run q cr cy N))"
    using calculate_viability_run [OF tq, of cr cy] unfolding hq N_def .
  have l: "data (run p cr cy N) \<noteq> [] \<and> data (run q cr cy N) \<noteq> []
         \<and> Balance (last (data (run p cr cy N))) \<le> Balance (last (data (run q cr cy N)))"
    if "1 \<le> self_horizon_months self"
    using run_last_row [OF tp, of cr cy] run_last_row [OF tq, of cr cy] that m(1)
    unfolding hp hq N_def by simp
  show ?thesis
    unfolding p_def [symmetric] q_def [symmetric] cp cq using m(2) l by blast
qed

subsection \<open>One year without shock\<close>

lemma run_escalation:
  assumes tax: "tax_rate (self_inputs p) \<noteq> 1"
  shows "current_expense (run p cr cy k)
           = target_payout (self_inputs p) * (1 + inflation_rate (self_inputs p)) ^ ((k - 1) div 12)
       \<and> current_div (run p cr cy k)
           = current_dividends (self_inputs p) * (1 + gdp_growth (self_inputs p)) ^ ((k - 1) div 12)"
proof (induction k)
  case 0
  show ?case by (simp add: sim_init_def)
next
  case (Suc k)
  show ?case
  proof (cases "1 < Suc k \<and> (Suc k - 1) mod 12 = 0")
    case True
    then obtain j where j: "k = Suc j" by (cases k) auto
    have "Suc j div 12 = Suc (j div 12)"
      using True j by (simp add: div_Suc)
    then have "k div 12 = Suc ((k - 1) div 12)"
      using j by simp
    then show ?thesis
      using Suc True
      by (simp add: month_ok_current_div [OF tax] month_ok_current_expense [OF tax])
  next
    case False
    have "k div 12 = (k - 1) div 12"
    proof (cases k)
      case 0
      then show ?thesis by simp
    next
      case (Suc j)
      then show ?thesis using False by (simp add: div_Suc)
    qed
    then show ?thesis
      using Suc False
      by (simp only: run.simps month_ok_current_div [OF tax] month_ok_current_expense [OF tax]
            if_False diff_Suc_1)
  qed
qed

lemma run_withdrawal_in_year:
  assumes tax: "tax_rate (self_inputs p) \<noteq> 1"
  shows "gross_withdrawal (run p cr cy (Suc k)) = withdrawal_in_year p (k div 12)"
proof -
  have "gross_withdrawal (run p cr cy (Suc k)) =
     max 0 (current_expense (run p cr cy (Suc k))
            - (other_income (self_inputs p) + current_div (run p cr cy (Suc k))))
     / (1 - tax_rate (self_inputs p))"
    using month_ok_gross_withdrawal [OF tax, of cr cy "Suc k" "run p cr cy k"] by simp
  then show ?thesis
    unfolding withdrawal_in_year_def using run_escalation [OF tax, of cr cy "Suc k"] by simp
qed

lemma run_Suc_lower:
  assumes tax: "tax_rate (self_inputs p) \<noteq> 1"
  shows "balance (run p cr cy k) * (1 + rate_of p cr cy (Suc k))
           - gross_withdrawal (run p cr cy (Suc k)) \<le> balance (run p cr cy (Suc k))"
  unfolding run_Suc_balance [OF tax] by simp

lemma run_Suc_exact:
  assumes tax: "tax_rate (self_inputs p) \<noteq> 1" and "is_solvent (run p cr cy (Suc k))"
  shows "balance (run p cr cy (Suc k)) = balance (run p cr cy k) * (1 + rate_of p cr cy (Suc k))
           - gross_withdrawal (run p cr cy (Suc k))"
  using assms(2) run_Suc_is_solvent [OF tax, of cr cy k] run_Suc_balance [OF tax, of cr cy k]
  by simp

lemma compound_mono:
  "0 \<le> G \<Longrightarrow> b \<le> b' \<Longrightarrow> compound G w j b \<le> compound G w j b'"
  by (induction j) (simp_all add: mult_right_mono)

lemma year_lower:
  assumes tax: "tax_rate (self_inputs p) \<noteq> 1"
    and G: "0 \<le> 1 + expected_return (self_inputs p) / 12"
    and j: "j \<le> 12"
  shows "compound (1 + expected_return (self_inputs p) / 12) (withdrawal_in_year p y) j
           (balance (run p cr 0 (12 * y)))
         \<le> balance (run p cr 0 (12 * y + j))"
  using j
proof (induction j)
  case 0
  show ?case by simp
next
  case (Suc j)
  have d: "(12 * y + j) div 12 = y"
    using Suc.prems by simp
  have "compound (1 + expected_return (self_inputs p) / 12) (withdrawal_in_year p y) j
           (balance (run p cr 0 (12 * y))) * (1 + expected_return (self_inputs p) / 12)
        \<le> balance (run p cr 0 (12 * y + j)) * (1 + expected_return (self_inputs p) / 12)"
    using Suc G by (simp add: mult_right_mono del: distrib_left)
  moreover have "balance (run p cr 0 (12 * y + j)) * (1 + expected_return (self_inputs p) / 12)
           - withdrawal_in_year p y \<le> balance (run p cr 0 (Suc (12 * y + j)))"
    using run_Suc_lower [OF tax, of cr 0 "12 * y + j"]
    unfolding run_withdrawal_in_year [OF tax] d rate_of_no_shock .
  ultimately show ?case
    by simp
qed

lemma year_exact:
  assumes tax: "tax_rate (self_inputs p) \<noteq> 1"
    and sol: "is_solvent (run p cr 0 (12 * y + j))"
    and j: "j \<le> 12"
  shows "balance (run p cr 0 (12 * y + j))
         = compound (1 + expected_return (self_inputs p) / 12) (withdrawal_in_year p y) j
             (balance (run p cr 0 (12 * y)))"
  using sol j
proof (induction j)
  case 0
  show ?case by simp
next
  case (Suc j)
  have d: "(12 * y + j) div 12 = y"
    using Suc.prems by simp
  have s: "is_solvent (run p cr 0 (Suc (12 * y + j)))"
    using Suc.prems by simp
  then have "is_solvent (run p cr 0 (12 * y + j))"
    using run_Suc_is_solvent [OF tax, of cr 0 "12 * y + j"] by simp
  then have ih: "balance (run p cr 0 (12 * y + j))
         = compound (1 + expected_return (self_inputs p) / 12) (withdrawal_in_year p y) j
             (balance (run p cr 0 (12 * y)))"
    using Suc by simp
  have "balance (run p cr 0 (Suc (12 * y + j)))
        = balance (run p cr 0 (12 * y + j)) * (1 + expected_return (self_inputs p) / 12)
          - withdrawal_in_year p y"
    using run_Suc_exact [OF tax s]
    unfolding run_withdrawal_in_year [OF tax] d rate_of_no_shock .
  then show ?case
    using ih by simp
qed

lemma run_solvent_msg:
  assumes tax: "tax_rate (self_inputs p) \<noteq> 1"
  shows "is_solvent (run p cr cy k) \<Longrightarrow> insolvency_msg (run p cr cy k) = Solvent"
proof (induction k)
  case 0
  show ?case by (simp add: sim_init_def)
next
  case (Suc k)
  then show ?case
    by (simp add: month_ok_is_solvent [OF tax] month_ok_insolvency_msg [OF tax])
qed

text \<open>One year of a run without shock, between bounds.\<close>

lemma year_bounds:
  assumes tax: "tax_rate (self_inputs p) < 1"
    and G: "0 \<le> 1 + expected_return (self_inputs p) / 12"
    and lo: "L \<le> balance (run p cr 0 (12 * y))"
    and hi: "balance (run p cr 0 (12 * y)) \<le> U"
    and lo': "L' \<le> compound (1 + expected_return (self_inputs p) / 12) (withdrawal_in_year p y) 12 L"
    and hi': "compound (1 + expected_return (self_inputs p) / 12) (withdrawal_in_year p y) 12 U \<le> U'"
    and pos: "0 < L'"
  shows "L' \<le> balance (run p cr 0 (12 * Suc y))
       \<and> balance (run p cr 0 (12 * Suc y)) \<le> U'
       \<and> is_solvent (run p cr 0 (12 * Suc y))"
proof -
  have t: "tax_rate (self_inputs p) \<noteq> 1"
    using tax by simp
  have e: "12 * Suc y = 12 * y + 12"
    by simp
  have "compound (1 + expected_return (self_inputs p) / 12) (withdrawal_in_year p y) 12 L
        \<le> compound (1 + expected_return (self_inputs p) / 12) (withdrawal_in_year p y) 12
             (balance (run p cr 0 (12 * y)))"
    by (rule compound_mono [OF G lo])
  also have "\<dots> \<le> balance (run p cr 0 (12 * y + 12))"
    by (rule year_lower [OF t G]) simp
  finally have l: "L' \<le> balance (run p cr 0 (12 * y + 12))"
    using lo' by simp
  have rates: "- 1 \<le> rate_of p cr 0 m" for m
    using G by (simp add: rate_of_no_shock)
  have s: "is_solvent (run p cr 0 (12 * y + 12))"
  proof (rule ccontr)
    assume "\<not> is_solvent (run p cr 0 (12 * y + 12))"
    then have "balance (run p cr 0 (12 * y + 12)) \<le> 0"
      using run_insolvent_nonpositive [OF tax, of "12 * y + 12" cr 0] rates by blast
    then show False
      using l pos by simp
  qed
  have "balance (run p cr 0 (12 * y + 12))
        = compound (1 + expected_return (self_inputs p) / 12) (withdrawal_in_year p y) 12
            (balance (run p cr 0 (12 * y)))"
    by (rule year_exact [OF t s]) simp
  also have "\<dots> \<le> compound (1 + expected_return (self_inputs p) / 12) (withdrawal_in_year p y) 12 U"
    by (rule compound_mono [OF G hi])
  finally have u: "balance (run p cr 0 (12 * y + 12)) \<le> U'"
    using hi' by simp
  show ?thesis
    unfolding e using l u s by simp
qed

subsection \<open>The month indices of one-year and two-year scenarios\<close>

lemma month_range_plain_1:
  "month_range (plain c t x 1 r) = [1, 2, 3, 4, 5, 6, 7, 8, 9, 10, 11, 12]"
  by (simp add: month_range_def plain_def RetirementPlanner_def upt_conv_Cons)

lemma month_range_plain_2:
  "month_range (plain c t x 2 r) =
     [1, 2, 3, 4, 5, 6, 7, 8, 9, 10, 11, 12, 13, 14, 15, 16, 17, 18, 19, 20, 21, 22, 23, 24]"
  by (simp add: month_range_def plain_def RetirementPlanner_def upt_conv_Cons)

lemma month_range_update:
  "month_range (self\<lparr>self_lump_sum := x\<rparr>) = month_range self"
  by (simp add: month_range_def)

lemma plain_fields:
  "tax_rate (self_inputs (plain c t x y r)) = x"
  "self_lump_sum (plain c t x y r) = c"
  "self_horizon_months (plain c t x y r) = y * 12"
  "expected_return (self_inputs (plain c t x y r)) = r"
  by (simp_all add: plain_def RetirementPlanner_def)

section \<open>The capital solver\<close>

subsection \<open>Solvency as a function of the capital\<close>

lemma solvent_at_run:
  assumes "tax_rate (self_inputs self) \<noteq> 1"
  shows "solvent_at self cr cy x =
     is_solvent (run (self\<lparr>self_lump_sum := x\<rparr>) cr cy (nat (self_horizon_months self)))"
proof -
  have "tax_rate (self_inputs (self\<lparr>self_lump_sum := x\<rparr>)) \<noteq> 1"
    using assms by simp
  then show ?thesis
    unfolding solvent_at_def by (simp add: calculate_viability_run)
qed

lemma calculate_viability_solvent_at:
  assumes "tax_rate (self_inputs self) \<noteq> 1"
  shows "\<exists>d msg. calculate_viability (self\<lparr>self_lump_sum := x\<rparr>) cr cy
                   = Inr (d, solvent_at self cr cy x, msg)"
proof -
  have "tax_rate (self_inputs (self\<lparr>self_lump_sum := x\<rparr>)) \<noteq> 1"
    using assms by simp
  then show ?thesis
    unfolding solvent_at_def by (simp add: calculate_viability_run)
qed

lemma solvent_at_update [simp]:
  "solvent_at (self\<lparr>self_lump_sum := a\<rparr>) cr cy x = solvent_at self cr cy x"
  by (simp add: solvent_at_def)

lemma solvent_at_mono_rates:
  assumes tax: "tax_rate (self_inputs self) \<noteq> 1"
    and rates: "\<And>m. 1 \<le> m \<Longrightarrow> m \<le> nat (self_horizon_months self) \<Longrightarrow> - 1 \<le> rate_of self cr cy m"
    and xy: "x \<le> y"
    and sol: "solvent_at self cr cy x"
  shows "solvent_at self cr cy y"
proof -
  define p where "p = self\<lparr>self_lump_sum := x\<rparr>"
  define q where "q = self\<lparr>self_lump_sum := y\<rparr>"
  have inp: "self_inputs p = self_inputs q"
    by (simp add: p_def q_def)
  have t: "tax_rate (self_inputs p) \<noteq> 1"
    using tax by (simp add: p_def)
  have cap: "self_lump_sum p \<le> self_lump_sum q"
    using xy by (simp add: p_def q_def)
  have r: "- 1 \<le> rate_of p cr cy m" if "1 \<le> m" "m \<le> nat (self_horizon_months self)" for m
    using rates [OF that] rate_of_inputs [of p self cr cy m] by (simp add: p_def)
  have "is_solvent (run p cr cy (nat (self_horizon_months self)))
        \<longrightarrow> is_solvent (run q cr cy (nat (self_horizon_months self)))"
    using run_mono [OF inp t cap, of "nat (self_horizon_months self)" cr cy] r by blast
  then show ?thesis
    using sol unfolding solvent_at_run [OF tax] p_def q_def by simp
qed

lemma solvent_at_mono:
  assumes tax: "tax_rate (self_inputs self) < 1"
    and x: "0 \<le> x" and xy: "x \<le> y"
    and sol: "solvent_at self cr cy x"
  shows "solvent_at self cr cy y"
proof -
  have t: "tax_rate (self_inputs self) \<noteq> 1"
    using tax by simp
  define p where "p = self\<lparr>self_lump_sum := x\<rparr>"
  have sp: "is_solvent (run p cr cy (nat (self_horizon_months self)))"
    using sol unfolding solvent_at_run [OF t] p_def .
  have "- 1 \<le> rate_of self cr cy m" if "1 \<le> m" "m \<le> nat (self_horizon_months self)" for m
  proof -
    have "- 1 < rate_of p cr cy m"
      by (rule run_solvent_rate [OF _ _ sp that]) (use tax x in \<open>simp_all add: p_def\<close>)
    then show ?thesis
      using rate_of_inputs [of p self cr cy m] by (simp add: p_def)
  qed
  then show ?thesis
    by (rule solvent_at_mono_rates [OF t _ xy sol])
qed

lemma bisect_Suc:
  assumes "tax_rate (self_inputs self) \<noteq> 1"
  shows "bisect (Suc n) self cr cy low high =
     (if solvent_at self cr cy ((low + high) / 2)
      then bisect n (self\<lparr>self_lump_sum := (low + high) / 2\<rparr>) cr cy low ((low + high) / 2)
      else bisect n (self\<lparr>self_lump_sum := (low + high) / 2\<rparr>) cr cy ((low + high) / 2) high)"
proof -
  obtain d msg where "calculate_viability (self\<lparr>self_lump_sum := (low + high) / 2\<rparr>) cr cy
      = Inr (d, solvent_at self cr cy ((low + high) / 2), msg)"
    using calculate_viability_solvent_at [OF assms] by blast
  then show ?thesis
    by (simp add: Let_def)
qed

lemma bisect_tax_one:
  assumes "tax_rate (self_inputs self) = 1" and "1 \<le> self_horizon_months self"
  shows "bisect (Suc n) self cr cy low high
         = (self\<lparr>self_lump_sum := (low + high) / 2\<rparr>, Inl ZeroDivisionError)"
  using assms by (simp add: Let_def calculate_viability_tax_one)

lemma bisect_no_months:
  assumes "tax_rate (self_inputs self) = 1" and "\<not> 1 \<le> self_horizon_months self"
  shows "\<exists>self' lo hi. bisect n self cr cy low high = (self', Inr (lo, hi))"
  using assms
proof (induction n arbitrary: self low high)
  case 0
  show ?case by simp
next
  case (Suc n)
  have "\<exists>self' lo hi. bisect n (self\<lparr>self_lump_sum := (low + high) / 2\<rparr>) cr cy low ((low + high) / 2)
           = (self', Inr (lo, hi))"
    by (rule Suc.IH) (use Suc.prems in simp_all)
  then show ?case
    using Suc.prems by (simp add: Let_def calculate_viability_tax_one)
qed

text \<open>What every complete search keeps: the planner apart from its capital, the width of
  the bracket, and what has been observed at each moved end.\<close>

lemma bisect_bracket:
  assumes "tax_rate (self_inputs self) \<noteq> 1"
  shows "\<exists>self' lo hi.
      bisect n self cr cy low high = (self', Inr (lo, hi))
      \<and> self'\<lparr>self_lump_sum := c\<rparr> = self\<lparr>self_lump_sum := c\<rparr>
      \<and> hi - lo = (high - low) / 2 ^ n
      \<and> (hi = high \<or> solvent_at self cr cy hi)
      \<and> (lo = low \<or> \<not> solvent_at self cr cy lo)
      \<and> (low \<le> high \<longrightarrow> low \<le> lo \<and> lo \<le> hi \<and> hi \<le> high)"
  using assms
proof (induction n arbitrary: self low high)
  case 0
  show ?case by simp
next
  case (Suc n)
  define mid where "mid = (low + high) / 2"
  define self1 where "self1 = self\<lparr>self_lump_sum := mid\<rparr>"
  have t1: "tax_rate (self_inputs self1) \<noteq> 1"
    using Suc.prems by (simp add: self1_def)
  have upd: "self1\<lparr>self_lump_sum := c\<rparr> = self\<lparr>self_lump_sum := c\<rparr>"
    by (simp add: self1_def)
  have sa: "solvent_at self1 cr cy x = solvent_at self cr cy x" for x
    by (simp add: self1_def)
  show ?case
  proof (cases "solvent_at self cr cy mid")
    case True
    obtain self' lo hi where r: "bisect n self1 cr cy low mid = (self', Inr (lo, hi))"
      "self'\<lparr>self_lump_sum := c\<rparr> = self1\<lparr>self_lump_sum := c\<rparr>"
      "hi - lo = (mid - low) / 2 ^ n"
      "hi = mid \<or> solvent_at self1 cr cy hi"
      "lo = low \<or> \<not> solvent_at self1 cr cy lo"
      "low \<le> mid \<longrightarrow> low \<le> lo \<and> lo \<le> hi \<and> hi \<le> mid"
      using Suc.IH [OF t1, of low mid] by blast
    have b: "bisect (Suc n) self cr cy low high = (self', Inr (lo, hi))"
      using True r(1) unfolding bisect_Suc [OF Suc.prems] mid_def [symmetric] self1_def [symmetric]
      by simp
    have w: "hi - lo = (high - low) / 2 ^ Suc n"
      using r(3) by (simp add: mid_def field_simps)
    have h: "hi = high \<or> solvent_at self cr cy hi"
      using r(4) True sa by auto
    have l: "lo = low \<or> \<not> solvent_at self cr cy lo"
      using r(5) sa by simp
    have o: "low \<le> high \<longrightarrow> low \<le> lo \<and> lo \<le> hi \<and> hi \<le> high"
      using r(6) by (auto simp: mid_def)
    show ?thesis
      using b r(2) upd w h l o by simp
  next
    case False
    obtain self' lo hi where r: "bisect n self1 cr cy mid high = (self', Inr (lo, hi))"
      "self'\<lparr>self_lump_sum := c\<rparr> = self1\<lparr>self_lump_sum := c\<rparr>"
      "hi - lo = (high - mid) / 2 ^ n"
      "hi = high \<or> solvent_at self1 cr cy hi"
      "lo = mid \<or> \<not> solvent_at self1 cr cy lo"
      "mid \<le> high \<longrightarrow> mid \<le> lo \<and> lo \<le> hi \<and> hi \<le> high"
      using Suc.IH [OF t1, of mid high] by blast
    have b: "bisect (Suc n) self cr cy low high = (self', Inr (lo, hi))"
      using False r(1) unfolding bisect_Suc [OF Suc.prems] mid_def [symmetric] self1_def [symmetric]
      by simp
    have w: "hi - lo = (high - low) / 2 ^ Suc n"
      using r(3) by (simp add: mid_def field_simps)
    have h: "hi = high \<or> solvent_at self cr cy hi"
      using r(4) sa by simp
    have l: "lo = low \<or> \<not> solvent_at self cr cy lo"
      using r(5) False sa by auto
    have o: "low \<le> high \<longrightarrow> low \<le> lo \<and> lo \<le> hi \<and> hi \<le> high"
      using r(6) by (auto simp: mid_def)
    show ?thesis
      using b r(2) upd w h l o by simp
  qed
qed

subsection \<open>The bisection\<close>

lemma bisect_frame:
  "(fst (bisect n self cr cy low high))\<lparr>self_lump_sum := c\<rparr> = self\<lparr>self_lump_sum := c\<rparr>"
proof (induction n arbitrary: self low high)
  case 0
  show ?case by simp
next
  case (Suc n)
  show ?case
    using Suc [of "self\<lparr>self_lump_sum := (low + high) / 2\<rparr>"]
    by (simp add: Let_def split: sum.splits prod.splits)
qed

lemma solve_bracket:
  assumes "tax_rate (self_inputs self) \<noteq> 1"
  shows "\<exists>lo hi.
      solve_required_capital self cr cy = (self, Inr hi)
      \<and> hi - lo = 9 * self_lump_sum self / 2 ^ 30
      \<and> (hi = self_lump_sum self * 10 \<or> solvent_at self cr cy hi)
      \<and> (lo = self_lump_sum self \<or> \<not> solvent_at self cr cy lo)
      \<and> (0 \<le> self_lump_sum self \<longrightarrow>
            self_lump_sum self \<le> lo \<and> lo \<le> hi \<and> hi \<le> self_lump_sum self * 10)"
proof -
  obtain self' lo hi where r:
    "bisect 30 self cr cy (self_lump_sum self) (self_lump_sum self * 10) = (self', Inr (lo, hi))"
    "self'\<lparr>self_lump_sum := self_lump_sum self\<rparr> = self\<lparr>self_lump_sum := self_lump_sum self\<rparr>"
    "hi - lo = (self_lump_sum self * 10 - self_lump_sum self) / 2 ^ 30"
    "hi = self_lump_sum self * 10 \<or> solvent_at self cr cy hi"
    "lo = self_lump_sum self \<or> \<not> solvent_at self cr cy lo"
    "self_lump_sum self \<le> self_lump_sum self * 10 \<longrightarrow>
       self_lump_sum self \<le> lo \<and> lo \<le> hi \<and> hi \<le> self_lump_sum self * 10"
    using bisect_bracket [OF assms, of 30 cr cy "self_lump_sum self" "self_lump_sum self * 10"
        "self_lump_sum self"]
    by blast
  have s: "solve_required_capital self cr cy = (self, Inr hi)"
    using r(1,2) unfolding solve_required_capital_def Let_def by simp
  have w: "hi - lo = 9 * self_lump_sum self / 2 ^ 30"
    using r(3) by (simp add: algebra_simps)
  have o: "0 \<le> self_lump_sum self \<longrightarrow>
            self_lump_sum self \<le> lo \<and> lo \<le> hi \<and> hi \<le> self_lump_sum self * 10"
    using r(6) by auto
  show ?thesis
    using s w r(4,5) o by blast
qed

lemma solve_all_solvent:
  assumes tax: "tax_rate (self_inputs self) < 1"
    and cap: "0 \<le> self_lump_sum self"
    and sol: "solvent_at self cr cy (self_lump_sum self)"
  shows "snd (solve_required_capital self cr cy)
         = Inr (self_lump_sum self + 9 * self_lump_sum self / 2 ^ 30)"
proof -
  have t: "tax_rate (self_inputs self) \<noteq> 1"
    using tax by simp
  obtain lo hi where r:
    "solve_required_capital self cr cy = (self, Inr hi)"
    "hi - lo = 9 * self_lump_sum self / 2 ^ 30"
    "lo = self_lump_sum self \<or> \<not> solvent_at self cr cy lo"
    "self_lump_sum self \<le> lo"
    using solve_bracket [OF t, of cr cy] cap by blast
  have "solvent_at self cr cy lo"
    by (rule solvent_at_mono [OF tax cap r(4) sol])
  then have "lo = self_lump_sum self"
    using r(3) by blast
  then have "hi = self_lump_sum self + 9 * self_lump_sum self / 2 ^ 30"
    using r(2) by simp
  then show ?thesis
    using r(1) by simp
qed

lemma solve_none_solvent:
  assumes tax: "tax_rate (self_inputs self) \<noteq> 1"
    and rates: "\<And>m. 1 \<le> m \<Longrightarrow> m \<le> nat (self_horizon_months self) \<Longrightarrow> - 1 \<le> rate_of self cr cy m"
    and cap: "0 \<le> self_lump_sum self"
    and ins: "\<not> solvent_at self cr cy (self_lump_sum self * 10)"
  shows "snd (solve_required_capital self cr cy) = Inr (self_lump_sum self * 10)"
proof -
  obtain lo hi where r:
    "solve_required_capital self cr cy = (self, Inr hi)"
    "hi = self_lump_sum self * 10 \<or> solvent_at self cr cy hi"
    "hi \<le> self_lump_sum self * 10"
    using solve_bracket [OF tax, of cr cy] cap by blast
  have "\<not> solvent_at self cr cy hi"
    using solvent_at_mono_rates [OF tax rates r(3)] ins by blast
  then have "hi = self_lump_sum self * 10"
    using r(2) by blast
  then show ?thesis
    using r(1) by simp
qed

lemma solve_tax_one:
  assumes "tax_rate (self_inputs self) = 1"
  shows "snd (solve_required_capital self cr cy) = Inl ZeroDivisionError
         \<longleftrightarrow> 1 \<le> self_horizon_months self"
proof (cases "1 \<le> self_horizon_months self")
  case True
  have "bisect (Suc 29) self cr cy (self_lump_sum self) (self_lump_sum self * 10)
        = (self\<lparr>self_lump_sum := (self_lump_sum self + self_lump_sum self * 10) / 2\<rparr>,
           Inl ZeroDivisionError)"
    by (rule bisect_tax_one [OF assms True])
  moreover have "Suc 29 = 30" by simp
  ultimately have "bisect 30 self cr cy (self_lump_sum self) (self_lump_sum self * 10)
        = (self\<lparr>self_lump_sum := (self_lump_sum self + self_lump_sum self * 10) / 2\<rparr>,
           Inl ZeroDivisionError)"
    by (simp only:)
  then show ?thesis
    using True unfolding solve_required_capital_def Let_def by simp
next
  case False
  obtain self' lo hi where
    "bisect 30 self cr cy (self_lump_sum self) (self_lump_sum self * 10) = (self', Inr (lo, hi))"
    using bisect_no_months [OF assms False] by blast
  then show ?thesis
    using False unfolding solve_required_capital_def Let_def by simp
qed

section \<open>Values of doubles\<close>

lemma norm_exp_step:
  "0 < n \<Longrightarrow> norm_exp n a e =
     (if 2 ^ 53 \<le> a then norm_exp (n - 1) (a / 2) (e + 1)
      else if a < 2 ^ 52 \<and> - 1074 < e then norm_exp (n - 1) (a * 2) (e - 1)
      else e)"
  by (cases n) simp_all

lemma binary64_unfold:
  "binary64 x =
     (if x = 0 then 0
      else let e = norm_exp 2200 \<bar>x\<bar> 0
           in if 0 \<le> e then of_int (round_even (x / 2 ^ nat e)) * 2 ^ nat e
              else of_int (round_even (x * 2 ^ nat (- e))) / 2 ^ nat (- e))"
  by (simp add: binary64_def Let_def power_int_def field_simps)

lemmas binary64_eval = binary64_unfold norm_exp_step round_even_def Let_def


lemma binary64_values:
  "binary64 0 = 0"
  "binary64 1 = 1"
  "binary64 12 = 12"
  "binary64 (- 1) = - 1"
  "binary64 (- 12) = - 12"
  "binary64 120 = 120"
  "binary64 420 = 420"
  "binary64 540 = 540"
  "binary64 720 = 720"
  "binary64 732 = 732"
  "binary64 21000 = 21000"
  "binary64 (7 / 200) = 1261007895663739 / 36028797018963968"
  "binary64 (9 / 200) = 3242591731706757 / 72057594037927936"
  "binary64 (3 / 50) = 1080863910568919 / 18014398509481984"
  "binary64 (61 / 1000) = 1098878309078401 / 18014398509481984"
  "binary64 (3 / 10) = 5404319552844595 / 18014398509481984"
  "binary64 (12610078956637389 / 18014398509481984) = 3152519739159347 / 4503599627370496"
  "binary64 (94575592174780416000 / 3152519739159347) = 8246337208320001 / 274877906944"
  "binary64 (8246337208320001 / 137438953472000000) = 8646911284551353 / 144115188075855872"
  by (simp_all add: binary64_eval)

section \<open>Depletion\<close>

text \<open>
  Claim C1 fails on the code. The loop body sets the balance to 0 only in the month in which
  the run is first marked insolvent; in every later month the guard
  \<^verbatim>\<open>balance <= 0 and is_solvent\<close> is false, so the withdrawal is subtracted from 0 and
  the balance goes negative. With capital 1, spending 1 a month, no income, no tax, all
  rates 0 and a horizon of 2 years the run is depleted in year 1, and the balances sampled
  for years 1 and 2 are -11 and -23, not 0. (The flag and the recorded year do stay as they
  are: \<open>run_depleted_stays\<close>, \<open>run_first_depletion\<close>.)
\<close>

theorem depleted_balance_goes_negative:
  "calculate_viability (plain 1 1 0 2 0) 0 0 =
     Inr ([\<lparr>Year = 1, Expenses_Net = 1, Withdrawal_Gross = 1, Balance = - 11\<rparr>,
           \<lparr>Year = 2, Expenses_Net = 1, Withdrawal_Gross = 1, Balance = - 23\<rparr>],
          False, DEPLETED 1)"
  unfolding calculate_viability_def month_range_plain_2
  by (simp add: plain_def RetirementPlanner_def sim_init_def month_def Let_def)

section \<open>More starting capital\<close>

text \<open>
  Claim C4 fails on the code, through the same negative balances after depletion. With
  spending 1 a month, no income, no tax, a horizon of 2 years, a rate of 0% in a first
  shock year and an expected return of -2400% a year afterwards (a monthly factor of -1),
  the run from capital 12 ends at balance 0 and the run from capital 100 ends at -1.
  With monthly growth factors of at least 0 the claim holds: \<open>calculate_viability_mono\<close>.
\<close>

theorem higher_capital_lower_final_balance:
  "calculate_viability (plain 12 1 0 2 (- 24)) 0 1 =
     Inr ([\<lparr>Year = 1, Expenses_Net = 1, Withdrawal_Gross = 1, Balance = 0\<rparr>,
           \<lparr>Year = 2, Expenses_Net = 1, Withdrawal_Gross = 1, Balance = 0\<rparr>],
          False, DEPLETED 1)
   \<and> calculate_viability (plain 100 1 0 2 (- 24)) 0 1 =
     Inr ([\<lparr>Year = 1, Expenses_Net = 1, Withdrawal_Gross = 1, Balance = 88\<rparr>,
           \<lparr>Year = 2, Expenses_Net = 1, Withdrawal_Gross = 1, Balance = - 1\<rparr>],
          False, DEPLETED 2)"
  unfolding calculate_viability_def month_range_plain_2
  by (simp add: plain_def RetirementPlanner_def sim_init_def month_def Let_def)

section \<open>What the solver returns\<close>

lemma solvent_at_plain_20: "solvent_at (plain 2 1 0 1 0) 0 0 20"
  unfolding solvent_at_def calculate_viability_def month_range_update month_range_plain_1
  by (simp add: plain_def RetirementPlanner_def sim_init_def month_def Let_def)

lemma rerun_plain_10:
  "calculate_viability ((plain 1 100 0 1 0)\<lparr>self_lump_sum := 10\<rparr>) 0 0 =
     Inr ([\<lparr>Year = 1, Expenses_Net = 100, Withdrawal_Gross = 100, Balance = - 1100\<rparr>],
          False, DEPLETED 1)"
  unfolding calculate_viability_def month_range_update month_range_plain_1
  by (simp add: plain_def RetirementPlanner_def sim_init_def month_def Let_def)

lemma rerun_plain_1000:
  "calculate_viability ((plain 1 100 0 1 0)\<lparr>self_lump_sum := 1000\<rparr>) 0 0 =
     Inr ([\<lparr>Year = 1, Expenses_Net = 100, Withdrawal_Gross = 100, Balance = - 200\<rparr>],
          False, DEPLETED 1)"
  unfolding calculate_viability_def month_range_update month_range_plain_1
  by (simp add: plain_def RetirementPlanner_def sim_init_def month_def Let_def)

lemma solvent_at_plain_1: "solvent_at (plain 1 0 0 1 0) 0 0 1"
  unfolding solvent_at_def calculate_viability_def month_range_update month_range_plain_1
  by (simp add: plain_def RetirementPlanner_def sim_init_def month_def Let_def)

text \<open>
  Claim C2, as amended. For a tax rate below 1 and a capital \<open>c \<ge> 0\<close>, if the simulation
  is solvent at the upper bound \<open>10 * c\<close> of the search, then the solver returns a value
  \<open>r\<close> between \<open>c\<close> and \<open>10 * c\<close> at which the simulation, run again with \<open>r\<close> as starting
  capital, is solvent, and no capital above \<open>c\<close> and up to \<open>r - 9 * c / 2 ^ 30\<close> is solvent:
  \<open>r\<close> is the least solvent capital above \<open>c\<close> to within the final width of the bracket.
\<close>

theorem solve_required_capital_min_within_bound:
  assumes tax: "tax_rate (self_inputs self) < 1"
    and cap: "0 \<le> self_lump_sum self"
    and sol: "solvent_at self cr cy (self_lump_sum self * 10)"
  shows "\<exists>r. snd (solve_required_capital self cr cy) = Inr r
       \<and> self_lump_sum self \<le> r \<and> r \<le> self_lump_sum self * 10
       \<and> solvent_at self cr cy r
       \<and> (\<forall>x. self_lump_sum self < x \<and> x \<le> r - 9 * self_lump_sum self / 2 ^ 30
              \<longrightarrow> \<not> solvent_at self cr cy x)"
proof -
  have t: "tax_rate (self_inputs self) \<noteq> 1"
    using tax by simp
  obtain lo hi where r:
    "solve_required_capital self cr cy = (self, Inr hi)"
    "hi - lo = 9 * self_lump_sum self / 2 ^ 30"
    "hi = self_lump_sum self * 10 \<or> solvent_at self cr cy hi"
    "lo = self_lump_sum self \<or> \<not> solvent_at self cr cy lo"
    "self_lump_sum self \<le> lo" "lo \<le> hi" "hi \<le> self_lump_sum self * 10"
    using solve_bracket [OF t, of cr cy] cap by blast
  have lo: "lo = hi - 9 * self_lump_sum self / 2 ^ 30"
    using r(2) by simp
  have sh: "solvent_at self cr cy hi"
    using r(3) sol by auto
  have "\<not> solvent_at self cr cy x" if x: "self_lump_sum self < x" "x \<le> lo" for x
  proof
    assume sx: "solvent_at self cr cy x"
    have "0 \<le> x" using cap x(1) by simp
    then have "solvent_at self cr cy lo"
      by (rule solvent_at_mono [OF tax _ x(2) sx])
    then have "lo = self_lump_sum self"
      using r(4) by blast
    then show False
      using x by simp
  qed
  then have "\<forall>x. self_lump_sum self < x \<and> x \<le> hi - 9 * self_lump_sum self / 2 ^ 30
              \<longrightarrow> \<not> solvent_at self cr cy x"
    unfolding lo by blast
  moreover have "self_lump_sum self \<le> hi"
    using r(5,6) by simp
  ultimately show ?thesis
    using r(1,7) sh by simp
qed

theorem solve_required_capital_min_within_bound_witness:
  "\<exists>r. snd (solve_required_capital (plain 2 1 0 1 0) 0 0) = Inr r
     \<and> 2 \<le> r \<and> r \<le> 20
     \<and> solvent_at (plain 2 1 0 1 0) 0 0 r
     \<and> (\<forall>x. 2 < x \<and> x \<le> r - 9 * 2 / 2 ^ 30 \<longrightarrow> \<not> solvent_at (plain 2 1 0 1 0) 0 0 x)"
  using solve_required_capital_min_within_bound [of "plain 2 1 0 1 0" 0 0] solvent_at_plain_20
  by (simp add: plain_fields)

text \<open>
  Claim C2 as stated fails when ten times the capital is not enough: from capital 1 with
  spending 100 a month the solver returns the bound 10, at which the simulation is depleted
  in year 1, as it still is at 1000.
\<close>

theorem solve_required_capital_bound_counterexample:
  "snd (solve_required_capital (plain 1 100 0 1 0) 0 0) = Inr 10
   \<and> calculate_viability ((plain 1 100 0 1 0)\<lparr>self_lump_sum := 10\<rparr>) 0 0 =
       Inr ([\<lparr>Year = 1, Expenses_Net = 100, Withdrawal_Gross = 100, Balance = - 1100\<rparr>],
            False, DEPLETED 1)
   \<and> calculate_viability ((plain 1 100 0 1 0)\<lparr>self_lump_sum := 1000\<rparr>) 0 0 =
       Inr ([\<lparr>Year = 1, Expenses_Net = 100, Withdrawal_Gross = 100, Balance = - 200\<rparr>],
            False, DEPLETED 1)"
proof -
  have "\<not> solvent_at (plain 1 100 0 1 0) 0 0 (self_lump_sum (plain 1 100 0 1 0) * 10)"
    using rerun_plain_10 by (simp add: solvent_at_def plain_fields)
  moreover have "- 1 \<le> rate_of (plain 1 100 0 1 0) 0 0 m" for m
    by (simp add: rate_of_def plain_fields)
  ultimately have "snd (solve_required_capital (plain 1 100 0 1 0) 0 0)
                   = Inr (self_lump_sum (plain 1 100 0 1 0) * 10)"
    by (intro solve_none_solvent) (simp_all add: plain_fields)
  then show ?thesis
    using rerun_plain_10 rerun_plain_1000 by (simp add: plain_fields)
qed

text \<open>
  Claim C8, as amended. For a tax rate below 1 and a capital \<open>c \<ge> 0\<close>, if the simulation
  is solvent at \<open>c\<close>, the solver runs its 30 iterations, finds every midpoint solvent and
  returns \<open>c + 9 * c / 2 ^ 30\<close>: a value at or above \<open>c\<close>, within \<open>9 * c / 2 ^ 30\<close> of it.
\<close>

theorem solve_required_capital_when_solvent:
  assumes "tax_rate (self_inputs self) < 1"
    and "0 \<le> self_lump_sum self"
    and "calculate_viability self cr cy = Inr (d, True, msg)"
  shows "snd (solve_required_capital self cr cy)
           = Inr (self_lump_sum self + 9 * self_lump_sum self / 2 ^ 30)
       \<and> self_lump_sum self \<le> self_lump_sum self + 9 * self_lump_sum self / 2 ^ 30"
proof -
  have "self\<lparr>self_lump_sum := self_lump_sum self\<rparr> = self"
    by simp
  then have "solvent_at self cr cy (self_lump_sum self)"
    using assms(3) by (simp add: solvent_at_def)
  then show ?thesis
    using solve_all_solvent [OF assms(1,2)] assms(2) by simp
qed

lemma plain_1_run:
  "calculate_viability (plain 1 0 0 1 0) 0 0 =
     Inr ([\<lparr>Year = 1, Expenses_Net = 0, Withdrawal_Gross = 0, Balance = 1\<rparr>], True, Solvent)"
  unfolding calculate_viability_def month_range_plain_1
  by (simp add: plain_def RetirementPlanner_def sim_init_def month_def Let_def)

theorem solve_required_capital_when_solvent_witness:
  "snd (solve_required_capital (plain 1 0 0 1 0) 0 0) = Inr (1 + 9 / 2 ^ 30)"
  using solve_required_capital_when_solvent [of "plain 1 0 0 1 0" 0 0
      "[\<lparr>Year = 1, Expenses_Net = 0, Withdrawal_Gross = 0, Balance = 1\<rparr>]" Solvent]
    plain_1_run
  by (simp add: plain_fields)

text \<open>
  Claim C8 as stated fails: from capital 1 without spending, solvent as it is, the solver
  returns \<open>1 + 9 / 2 ^ 30\<close>, which is above the capital and not at most the capital.
\<close>

theorem solve_required_capital_above_capital_counterexample:
  "calculate_viability (plain 1 0 0 1 0) 0 0 =
     Inr ([\<lparr>Year = 1, Expenses_Net = 0, Withdrawal_Gross = 0, Balance = 1\<rparr>], True, Solvent)
   \<and> snd (solve_required_capital (plain 1 0 0 1 0) 0 0) = Inr (1 + 9 / 2 ^ 30)
   \<and> \<not> (1 + 9 / 2 ^ 30 \<le> self_lump_sum (plain 1 0 0 1 0))"
proof -
  have "snd (solve_required_capital (plain 1 0 0 1 0) 0 0)
        = Inr (self_lump_sum (plain 1 0 0 1 0) + 9 * self_lump_sum (plain 1 0 0 1 0) / 2 ^ 30)"
    by (rule solve_all_solvent) (use solvent_at_plain_1 in \<open>simp_all add: plain_fields\<close>)
  then show ?thesis
    using plain_1_run by (simp add: plain_fields)
qed

text \<open>
  Claim C9. When \<^verbatim>\<open>solve_required_capital\<close> returns, the planner is the one it was
  called on: its inputs, its starting capital and its horizon are unchanged.
\<close>

theorem solve_required_capital_restores_planner:
  assumes "solve_required_capital self cr cy = (self', Inr r)"
  shows "self' = self"
proof -
  obtain s res where b: "bisect 30 self cr cy (self_lump_sum self) (self_lump_sum self * 10) = (s, res)"
    by (cases "bisect 30 self cr cy (self_lump_sum self) (self_lump_sum self * 10)")
  have "s\<lparr>self_lump_sum := self_lump_sum self\<rparr> = self\<lparr>self_lump_sum := self_lump_sum self\<rparr>"
    using bisect_frame [where c = "self_lump_sum self" and n = 30 and self = self and cr = cr
        and cy = cy and low = "self_lump_sum self" and high = "self_lump_sum self * 10"] b
    by simp
  then have fr: "s\<lparr>self_lump_sum := self_lump_sum self\<rparr> = self"
    by simp
  show ?thesis
    using assms b fr unfolding solve_required_capital_def Let_def
    by (auto split: sum.splits prod.splits)
qed

theorem solve_required_capital_restores_planner_witness:
  "snd (solve_required_capital (plain 1 0 0 1 0) 0 0) = Inr (1 + 9 / 2 ^ 30)
   \<and> fst (solve_required_capital (plain 1 0 0 1 0) 0 0) = plain 1 0 0 1 0"
proof -
  have s: "snd (solve_required_capital (plain 1 0 0 1 0) 0 0) = Inr (1 + 9 / 2 ^ 30)"
    using solve_all_solvent [of "plain 1 0 0 1 0" 0 0] solvent_at_plain_1
    by (simp add: plain_fields)
  then have "solve_required_capital (plain 1 0 0 1 0) 0 0
             = (fst (solve_required_capital (plain 1 0 0 1 0) 0 0), Inr (1 + 9 / 2 ^ 30))"
    by (simp add: prod_eq_iff)
  then have "fst (solve_required_capital (plain 1 0 0 1 0) 0 0) = plain 1 0 0 1 0"
    by (rule solve_required_capital_restores_planner)
  then show ?thesis
    using s by simp
qed

section \<open>Tax rates of 1 and above\<close>

text \<open>
  Claim C6, as amended. No component checks the tax rate. With any tax rate other than 1,
  above 1 included, the simulation, the solver and the classifier all return a result.
  With a tax rate of exactly 1 the simulation and the solver raise ZeroDivisionError exactly
  when the horizon has at least one month, and the classifier raises it exactly when target
  spend exceeds fixed plus dividend income.
\<close>

theorem tax_rate_not_validated:
  "(tax_rate (self_inputs self) \<noteq> 1 \<longrightarrow>
      (\<exists>r. calculate_viability self cr cy = Inr r)
      \<and> (\<exists>r. snd (solve_required_capital self cr cy) = Inr r)
      \<and> (\<exists>r. calculate_swr_health self = Inr r))
   \<and> (tax_rate (self_inputs self) = 1 \<longrightarrow>
      (calculate_viability self cr cy = Inl ZeroDivisionError \<longleftrightarrow> 1 \<le> self_horizon_months self)
      \<and> (snd (solve_required_capital self cr cy) = Inl ZeroDivisionError
           \<longleftrightarrow> 1 \<le> self_horizon_months self)
      \<and> (calculate_swr_health self = Inl ZeroDivisionError
           \<longleftrightarrow> 0 < target_payout (self_inputs self)
                     - (other_income (self_inputs self) + current_dividends (self_inputs self))))"
proof (intro conjI impI)
  assume t: "tax_rate (self_inputs self) \<noteq> 1"
  show "\<exists>r. calculate_viability self cr cy = Inr r"
    using calculate_viability_run [OF t] by blast
  show "\<exists>r. snd (solve_required_capital self cr cy) = Inr r"
    using solve_bracket [OF t, of cr cy] by auto
  show "\<exists>r. calculate_swr_health self = Inr r"
    using t by (simp add: calculate_swr_health_def Let_def)
next
  assume t: "tax_rate (self_inputs self) = 1"
  show "calculate_viability self cr cy = Inl ZeroDivisionError \<longleftrightarrow> 1 \<le> self_horizon_months self"
    by (simp add: calculate_viability_tax_one [OF t])
  show "snd (solve_required_capital self cr cy) = Inl ZeroDivisionError
          \<longleftrightarrow> 1 \<le> self_horizon_months self"
    by (rule solve_tax_one [OF t])
  show "calculate_swr_health self = Inl ZeroDivisionError
          \<longleftrightarrow> 0 < target_payout (self_inputs self)
                    - (other_income (self_inputs self) + current_dividends (self_inputs self))"
    using t by (simp add: calculate_swr_health_def Let_def)
qed

theorem tax_rate_not_validated_witness:
  "(\<exists>r. calculate_viability (plain 1 1 2 1 0) 0 0 = Inr r)
   \<and> (\<exists>r. snd (solve_required_capital (plain 1 1 2 1 0) 0 0) = Inr r)
   \<and> (\<exists>r. calculate_swr_health (plain 1 1 2 1 0) = Inr r)
   \<and> calculate_viability (plain 1 1 1 1 0) 0 0 = Inl ZeroDivisionError
   \<and> snd (solve_required_capital (plain 1 1 1 1 0) 0 0) = Inl ZeroDivisionError
   \<and> calculate_swr_health (plain 1 1 1 1 0) = Inl ZeroDivisionError"
  using tax_rate_not_validated [of "plain 1 1 2 1 0" 0 0]
    tax_rate_not_validated [of "plain 1 1 1 1 0" 0 0]
  by (simp add: plain_def RetirementPlanner_def)

text \<open>
  Claim C6 as stated fails: with a tax rate of 2 the simulation and the classifier return
  results, computed with withdrawals of the wrong sign.
\<close>

theorem tax_rate_two_counterexample:
  "1 \<le> tax_rate (self_inputs (plain 1 1 2 1 0))
   \<and> calculate_viability (plain 1 1 2 1 0) 0 0 =
     Inr ([\<lparr>Year = 1, Expenses_Net = 1, Withdrawal_Gross = - 1, Balance = 13\<rparr>], True, Solvent)
   \<and> calculate_swr_health (plain 1 1 2 1 0) = Inr (- 12, ''EXCELLENT (< 3.5%)'')"
  unfolding calculate_viability_def month_range_plain_1
  by (simp add: plain_def RetirementPlanner_def sim_init_def month_def Let_def
        calculate_swr_health_def binary64_values)

section \<open>The fixture scenario\<close>

lemma fixture_fields:
  "tax_rate (self_inputs (RetirementPlanner fixture_inputs)) = 0.15"
  "expected_return (self_inputs (RetirementPlanner fixture_inputs)) = 0.07"
  "inflation_rate (self_inputs (RetirementPlanner fixture_inputs)) = 0.025"
  "gdp_growth (self_inputs (RetirementPlanner fixture_inputs)) = 0.03"
  "target_payout (self_inputs (RetirementPlanner fixture_inputs)) = 4000"
  "other_income (self_inputs (RetirementPlanner fixture_inputs)) = 1500"
  "current_dividends (self_inputs (RetirementPlanner fixture_inputs)) = 500"
  "self_lump_sum (RetirementPlanner fixture_inputs) = 500000"
  "self_horizon_months (RetirementPlanner fixture_inputs) = 300"
  by (simp_all add: RetirementPlanner_def fixture_inputs_def)

lemma compound_12:
  "compound G w 12 b =
     (((((((((((b * G - w) * G - w) * G - w) * G - w) * G - w) * G - w) * G - w) * G - w)
         * G - w) * G - w) * G - w) * G - w"
  by (simp add: eval_nat_numeral)

lemmas fixture_year_simps = fixture_fields withdrawal_in_year_def compound_12 power_divide

lemma fixture_planner:
  "tax_rate (self_inputs (RetirementPlanner fixture_inputs)) \<noteq> 1"
  "self_horizon_months (RetirementPlanner fixture_inputs) = int (12 * 25)"
  "target_payout (self_inputs (RetirementPlanner fixture_inputs)) = 4000"
  "other_income (self_inputs (RetirementPlanner fixture_inputs)) = 1500"
  "current_dividends (self_inputs (RetirementPlanner fixture_inputs)) = 500"
  "tax_rate (self_inputs (RetirementPlanner fixture_inputs)) = 0.15"
  by (simp_all add: RetirementPlanner_def fixture_inputs_def)

lemma fixture_year_0:
  "500000 \<le> balance (run (RetirementPlanner fixture_inputs) 0 0 0)
   \<and> balance (run (RetirementPlanner fixture_inputs) 0 0 0) \<le> 500000"
  by (simp add: sim_init_def fixture_fields)

lemma fixture_year_1:
  "506986.016217 \<le> balance (run (RetirementPlanner fixture_inputs) 0 0 12)
   \<and> balance (run (RetirementPlanner fixture_inputs) 0 0 12) \<le> 506986.016218
   \<and> is_solvent (run (RetirementPlanner fixture_inputs) 0 0 12)"
  using year_bounds [where p = "RetirementPlanner fixture_inputs" and cr = 0 and y = 0
      and L = "500000" and U = "500000"
      and L' = "506986.016217" and U' = "506986.016218"]
    fixture_year_0
  by (simp add: fixture_year_simps)

lemma fixture_year_2:
  "513237.793582 \<le> balance (run (RetirementPlanner fixture_inputs) 0 0 24)
   \<and> balance (run (RetirementPlanner fixture_inputs) 0 0 24) \<le> 513237.793584
   \<and> is_solvent (run (RetirementPlanner fixture_inputs) 0 0 24)"
  using year_bounds [where p = "RetirementPlanner fixture_inputs" and cr = 0 and y = 1
      and L = "506986.016217" and U = "506986.016218"
      and L' = "513237.793582" and U' = "513237.793584"]
    fixture_year_1
  by (simp add: fixture_year_simps)

lemma fixture_year_3:
  "518672.365909 \<le> balance (run (RetirementPlanner fixture_inputs) 0 0 36)
   \<and> balance (run (RetirementPlanner fixture_inputs) 0 0 36) \<le> 518672.365913
   \<and> is_solvent (run (RetirementPlanner fixture_inputs) 0 0 36)"
  using year_bounds [where p = "RetirementPlanner fixture_inputs" and cr = 0 and y = 2
      and L = "513237.793582" and U = "513237.793584"
      and L' = "518672.365909" and U' = "518672.365913"]
    fixture_year_2
  by (simp add: fixture_year_simps)

lemma fixture_year_4:
  "523200.054985 \<le> balance (run (RetirementPlanner fixture_inputs) 0 0 48)
   \<and> balance (run (RetirementPlanner fixture_inputs) 0 0 48) \<le> 523200.054990
   \<and> is_solvent (run (RetirementPlanner fixture_inputs) 0 0 48)"
  using year_bounds [where p = "RetirementPlanner fixture_inputs" and cr = 0 and y = 3
      and L = "518672.365909" and U = "518672.365913"
      and L' = "523200.054985" and U' = "523200.054990"]
    fixture_year_3
  by (simp add: fixture_year_simps)

lemma fixture_year_5:
  "526723.968478 \<le> balance (run (RetirementPlanner fixture_inputs) 0 0 60)
   \<and> balance (run (RetirementPlanner fixture_inputs) 0 0 60) \<le> 526723.968484
   \<and> is_solvent (run (RetirementPlanner fixture_inputs) 0 0 60)"
  using year_bounds [where p = "RetirementPlanner fixture_inputs" and cr = 0 and y = 4
      and L = "523200.054985" and U = "523200.054990"
      and L' = "526723.968478" and U' = "526723.968484"]
    fixture_year_4
  by (simp add: fixture_year_simps)

lemma fixture_year_6:
  "529139.461162 \<le> balance (run (RetirementPlanner fixture_inputs) 0 0 72)
   \<and> balance (run (RetirementPlanner fixture_inputs) 0 0 72) \<le> 529139.461169
   \<and> is_solvent (run (RetirementPlanner fixture_inputs) 0 0 72)"
  using year_bounds [where p = "RetirementPlanner fixture_inputs" and cr = 0 and y = 5
      and L = "526723.968478" and U = "526723.968484"
      and L' = "529139.461162" and U' = "529139.461169"]
    fixture_year_5
  by (simp add: fixture_year_simps)

lemma fixture_year_7:
  "530333.556789 \<le> balance (run (RetirementPlanner fixture_inputs) 0 0 84)
   \<and> balance (run (RetirementPlanner fixture_inputs) 0 0 84) \<le> 530333.556798
   \<and> is_solvent (run (RetirementPlanner fixture_inputs) 0 0 84)"
  using year_bounds [where p = "RetirementPlanner fixture_inputs" and cr = 0 and y = 6
      and L = "529139.461162" and U = "529139.461169"
      and L' = "530333.556789" and U' = "530333.556798"]
    fixture_year_6
  by (simp add: fixture_year_simps)

lemma fixture_year_8:
  "530184.327762 \<le> balance (run (RetirementPlanner fixture_inputs) 0 0 96)
   \<and> balance (run (RetirementPlanner fixture_inputs) 0 0 96) \<le> 530184.327772
   \<and> is_solvent (run (RetirementPlanner fixture_inputs) 0 0 96)"
  using year_bounds [where p = "RetirementPlanner fixture_inputs" and cr = 0 and y = 7
      and L = "530333.556789" and U = "530333.556798"
      and L' = "530184.327762" and U' = "530184.327772"]
    fixture_year_7
  by (simp add: fixture_year_simps)

lemma fixture_year_9:
  "528560.229536 \<le> balance (run (RetirementPlanner fixture_inputs) 0 0 108)
   \<and> balance (run (RetirementPlanner fixture_inputs) 0 0 108) \<le> 528560.229548
   \<and> is_solvent (run (RetirementPlanner fixture_inputs) 0 0 108)"
  using year_bounds [where p = "RetirementPlanner fixture_inputs" and cr = 0 and y = 8
      and L = "530184.327762" and U = "530184.327772"
      and L' = "528560.229536" and U' = "528560.229548"]
    fixture_year_8
  by (simp add: fixture_year_simps)

lemma fixture_year_10:
  "525319.386485 \<le> balance (run (RetirementPlanner fixture_inputs) 0 0 120)
   \<and> balance (run (RetirementPlanner fixture_inputs) 0 0 120) \<le> 525319.386499
   \<and> is_solvent (run (RetirementPlanner fixture_inputs) 0 0 120)"
  using year_bounds [where p = "RetirementPlanner fixture_inputs" and cr = 0 and y = 9
      and L = "528560.229536" and U = "528560.229548"
      and L' = "525319.386485" and U' = "525319.386499"]
    fixture_year_9
  by (simp add: fixture_year_simps)

lemma fixture_year_11:
  "520308.825695 \<le> balance (run (RetirementPlanner fixture_inputs) 0 0 132)
   \<and> balance (run (RetirementPlanner fixture_inputs) 0 0 132) \<le> 520308.825711
   \<and> is_solvent (run (RetirementPlanner fixture_inputs) 0 0 132)"
  using year_bounds [where p = "RetirementPlanner fixture_inputs" and cr = 0 and y = 10
      and L = "525319.386485" and U = "525319.386499"
      and L' = "520308.825695" and U' = "520308.825711"]
    fixture_year_10
  by (simp add: fixture_year_simps)

lemma fixture_year_12:
  "513363.654927 \<le> balance (run (RetirementPlanner fixture_inputs) 0 0 144)
   \<and> balance (run (RetirementPlanner fixture_inputs) 0 0 144) \<le> 513363.654945
   \<and> is_solvent (run (RetirementPlanner fixture_inputs) 0 0 144)"
  using year_bounds [where p = "RetirementPlanner fixture_inputs" and cr = 0 and y = 11
      and L = "520308.825695" and U = "520308.825711"
      and L' = "513363.654927" and U' = "513363.654945"]
    fixture_year_11
  by (simp add: fixture_year_simps)

lemma fixture_year_13:
  "504306.180688 \<le> balance (run (RetirementPlanner fixture_inputs) 0 0 156)
   \<and> balance (run (RetirementPlanner fixture_inputs) 0 0 156) \<le> 504306.180709
   \<and> is_solvent (run (RetirementPlanner fixture_inputs) 0 0 156)"
  using year_bounds [where p = "RetirementPlanner fixture_inputs" and cr = 0 and y = 12
      and L = "513363.654927" and U = "513363.654945"
      and L' = "504306.180688" and U' = "504306.180709"]
    fixture_year_12
  by (simp add: fixture_year_simps)

lemma fixture_year_14:
  "492944.962086 \<le> balance (run (RetirementPlanner fixture_inputs) 0 0 168)
   \<and> balance (run (RetirementPlanner fixture_inputs) 0 0 168) \<le> 492944.962110
   \<and> is_solvent (run (RetirementPlanner fixture_inputs) 0 0 168)"
  using year_bounds [where p = "RetirementPlanner fixture_inputs" and cr = 0 and y = 13
      and L = "504306.180688" and U = "504306.180709"
      and L' = "492944.962086" and U' = "492944.962110"]
    fixture_year_13
  by (simp add: fixture_year_simps)

lemma fixture_year_15:
  "479073.795802 \<le> balance (run (RetirementPlanner fixture_inputs) 0 0 180)
   \<and> balance (run (RetirementPlanner fixture_inputs) 0 0 180) \<le> 479073.795829
   \<and> is_solvent (run (RetirementPlanner fixture_inputs) 0 0 180)"
  using year_bounds [where p = "RetirementPlanner fixture_inputs" and cr = 0 and y = 14
      and L = "492944.962086" and U = "492944.962110"
      and L' = "479073.795802" and U' = "479073.795829"]
    fixture_year_14
  by (simp add: fixture_year_simps)

lemma fixture_year_16:
  "462470.627196 \<le> balance (run (RetirementPlanner fixture_inputs) 0 0 192)
   \<and> balance (run (RetirementPlanner fixture_inputs) 0 0 192) \<le> 462470.627226
   \<and> is_solvent (run (RetirementPlanner fixture_inputs) 0 0 192)"
  using year_bounds [where p = "RetirementPlanner fixture_inputs" and cr = 0 and y = 15
      and L = "479073.795802" and U = "479073.795829"
      and L' = "462470.627196" and U' = "462470.627226"]
    fixture_year_15
  by (simp add: fixture_year_simps)

lemma fixture_year_17:
  "442896.382196 \<le> balance (run (RetirementPlanner fixture_inputs) 0 0 204)
   \<and> balance (run (RetirementPlanner fixture_inputs) 0 0 204) \<le> 442896.382230
   \<and> is_solvent (run (RetirementPlanner fixture_inputs) 0 0 204)"
  using year_bounds [where p = "RetirementPlanner fixture_inputs" and cr = 0 and y = 16
      and L = "462470.627196" and U = "462470.627226"
      and L' = "442896.382196" and U' = "442896.382230"]
    fixture_year_16
  by (simp add: fixture_year_simps)

lemma fixture_year_18:
  "420093.714230 \<le> balance (run (RetirementPlanner fixture_inputs) 0 0 216)
   \<and> balance (run (RetirementPlanner fixture_inputs) 0 0 216) \<le> 420093.714268
   \<and> is_solvent (run (RetirementPlanner fixture_inputs) 0 0 216)"
  using year_bounds [where p = "RetirementPlanner fixture_inputs" and cr = 0 and y = 17
      and L = "442896.382196" and U = "442896.382230"
      and L' = "420093.714230" and U' = "420093.714268"]
    fixture_year_17
  by (simp add: fixture_year_simps)

lemma fixture_year_19:
  "393785.660048 \<le> balance (run (RetirementPlanner fixture_inputs) 0 0 228)
   \<and> balance (run (RetirementPlanner fixture_inputs) 0 0 228) \<le> 393785.660090
   \<and> is_solvent (run (RetirementPlanner fixture_inputs) 0 0 228)"
  using year_bounds [where p = "RetirementPlanner fixture_inputs" and cr = 0 and y = 18
      and L = "420093.714230" and U = "420093.714268"
      and L' = "393785.660048" and U' = "393785.660090"]
    fixture_year_18
  by (simp add: fixture_year_simps)

lemma fixture_year_20:
  "363674.197838 \<le> balance (run (RetirementPlanner fixture_inputs) 0 0 240)
   \<and> balance (run (RetirementPlanner fixture_inputs) 0 0 240) \<le> 363674.197884
   \<and> is_solvent (run (RetirementPlanner fixture_inputs) 0 0 240)"
  using year_bounds [where p = "RetirementPlanner fixture_inputs" and cr = 0 and y = 19
      and L = "393785.660048" and U = "393785.660090"
      and L' = "363674.197838" and U' = "363674.197884"]
    fixture_year_19
  by (simp add: fixture_year_simps)

lemma fixture_year_21:
  "329438.700558 \<le> balance (run (RetirementPlanner fixture_inputs) 0 0 252)
   \<and> balance (run (RetirementPlanner fixture_inputs) 0 0 252) \<le> 329438.700608
   \<and> is_solvent (run (RetirementPlanner fixture_inputs) 0 0 252)"
  using year_bounds [where p = "RetirementPlanner fixture_inputs" and cr = 0 and y = 20
      and L = "363674.197838" and U = "363674.197884"
      and L' = "329438.700558" and U' = "329438.700608"]
    fixture_year_20
  by (simp add: fixture_year_simps)

lemma fixture_year_22:
  "290734.276898 \<le> balance (run (RetirementPlanner fixture_inputs) 0 0 264)
   \<and> balance (run (RetirementPlanner fixture_inputs) 0 0 264) \<le> 290734.276952
   \<and> is_solvent (run (RetirementPlanner fixture_inputs) 0 0 264)"
  using year_bounds [where p = "RetirementPlanner fixture_inputs" and cr = 0 and y = 21
      and L = "329438.700558" and U = "329438.700608"
      and L' = "290734.276898" and U' = "290734.276952"]
    fixture_year_21
  by (simp add: fixture_year_simps)

lemma fixture_year_23:
  "247189.991737 \<le> balance (run (RetirementPlanner fixture_inputs) 0 0 276)
   \<and> balance (run (RetirementPlanner fixture_inputs) 0 0 276) \<le> 247189.991796
   \<and> is_solvent (run (RetirementPlanner fixture_inputs) 0 0 276)"
  using year_bounds [where p = "RetirementPlanner fixture_inputs" and cr = 0 and y = 22
      and L = "290734.276898" and U = "290734.276952"
      and L' = "247189.991737" and U' = "247189.991796"]
    fixture_year_22
  by (simp add: fixture_year_simps)

lemma fixture_year_24:
  "198406.957370 \<le> balance (run (RetirementPlanner fixture_inputs) 0 0 288)
   \<and> balance (run (RetirementPlanner fixture_inputs) 0 0 288) \<le> 198406.957435
   \<and> is_solvent (run (RetirementPlanner fixture_inputs) 0 0 288)"
  using year_bounds [where p = "RetirementPlanner fixture_inputs" and cr = 0 and y = 23
      and L = "247189.991737" and U = "247189.991796"
      and L' = "198406.957370" and U' = "198406.957435"]
    fixture_year_23
  by (simp add: fixture_year_simps)

lemma fixture_year_25:
  "143956.286150 \<le> balance (run (RetirementPlanner fixture_inputs) 0 0 300)
   \<and> balance (run (RetirementPlanner fixture_inputs) 0 0 300) \<le> 143956.286221
   \<and> is_solvent (run (RetirementPlanner fixture_inputs) 0 0 300)"
  using year_bounds [where p = "RetirementPlanner fixture_inputs" and cr = 0 and y = 24
      and L = "198406.957370" and U = "198406.957435"
      and L' = "143956.286150" and U' = "143956.286221"]
    fixture_year_24
  by (simp add: fixture_year_simps)

lemma fixture_floors:
  "\<lfloor>balance (run (RetirementPlanner fixture_inputs) 0 0 12)\<rfloor> = 506986"
  "\<lfloor>balance (run (RetirementPlanner fixture_inputs) 0 0 24)\<rfloor> = 513237"
  "\<lfloor>balance (run (RetirementPlanner fixture_inputs) 0 0 36)\<rfloor> = 518672"
  "\<lfloor>balance (run (RetirementPlanner fixture_inputs) 0 0 48)\<rfloor> = 523200"
  "\<lfloor>balance (run (RetirementPlanner fixture_inputs) 0 0 60)\<rfloor> = 526723"
  "\<lfloor>balance (run (RetirementPlanner fixture_inputs) 0 0 72)\<rfloor> = 529139"
  "\<lfloor>balance (run (RetirementPlanner fixture_inputs) 0 0 84)\<rfloor> = 530333"
  "\<lfloor>balance (run (RetirementPlanner fixture_inputs) 0 0 96)\<rfloor> = 530184"
  "\<lfloor>balance (run (RetirementPlanner fixture_inputs) 0 0 108)\<rfloor> = 528560"
  "\<lfloor>balance (run (RetirementPlanner fixture_inputs) 0 0 120)\<rfloor> = 525319"
  "\<lfloor>balance (run (RetirementPlanner fixture_inputs) 0 0 132)\<rfloor> = 520308"
  "\<lfloor>balance (run (RetirementPlanner fixture_inputs) 0 0 144)\<rfloor> = 513363"
  "\<lfloor>balance (run (RetirementPlanner fixture_inputs) 0 0 156)\<rfloor> = 504306"
  "\<lfloor>balance (run (RetirementPlanner fixture_inputs) 0 0 168)\<rfloor> = 492944"
  "\<lfloor>balance (run (RetirementPlanner fixture_inputs) 0 0 180)\<rfloor> = 479073"
  "\<lfloor>balance (run (RetirementPlanner fixture_inputs) 0 0 192)\<rfloor> = 462470"
  "\<lfloor>balance (run (RetirementPlanner fixture_inputs) 0 0 204)\<rfloor> = 442896"
  "\<lfloor>balance (run (RetirementPlanner fixture_inputs) 0 0 216)\<rfloor> = 420093"
  "\<lfloor>balance (run (RetirementPlanner fixture_inputs) 0 0 228)\<rfloor> = 393785"
  "\<lfloor>balance (run (RetirementPlanner fixture_inputs) 0 0 240)\<rfloor> = 363674"
  "\<lfloor>balance (run (RetirementPlanner fixture_inputs) 0 0 252)\<rfloor> = 329438"
  "\<lfloor>balance (run (RetirementPlanner fixture_inputs) 0 0 264)\<rfloor> = 290734"
  "\<lfloor>balance (run (RetirementPlanner fixture_inputs) 0 0 276)\<rfloor> = 247189"
  "\<lfloor>balance (run (RetirementPlanner fixture_inputs) 0 0 288)\<rfloor> = 198406"
  "\<lfloor>balance (run (RetirementPlanner fixture_inputs) 0 0 300)\<rfloor> = 143956"
  using fixture_year_1 fixture_year_2 fixture_year_3 fixture_year_4 fixture_year_5 fixture_year_6 fixture_year_7 fixture_year_8 fixture_year_9 fixture_year_10 fixture_year_11 fixture_year_12 fixture_year_13 fixture_year_14 fixture_year_15 fixture_year_16 fixture_year_17 fixture_year_18 fixture_year_19 fixture_year_20 fixture_year_21 fixture_year_22 fixture_year_23 fixture_year_24 fixture_year_25
  by (simp_all add: floor_eq_iff)

text \<open>
  Claim C3. For capital 500000, fixed income 1500, dividend income 500, target spend 4000,
  tax rate 0.15, horizon 25 years, inflation 2.5%, dividend growth 3%, expected return 7% and
  no shock, the simulation returns a trajectory of exactly 25 points whose years are
  1, ..., 25 in strictly increasing order; the gross withdrawal computed in each of the
  months 1 to 12, and so the one recorded in the first point, is
  \<open>max 0 (4000 - 2000) / 0.85\<close>; and the end state is the one the monthly formulas give:
  the run is solvent with status Solvent, the point of year \<open>y\<close> records the expense
  \<open>4000 * 1.025 ^ (y - 1)\<close> and the withdrawal
  \<open>max 0 (4000 * 1.025 ^ (y - 1) - (1500 + 500 * 1.03 ^ (y - 1))) / 0.85\<close>, and the
  balances, rounded down to whole units, are 506986 after year 1, rising to 530333 after
  year 7 and falling to 143956 after year 25.
\<close>

theorem fixture_trajectory:
  "\<exists>d.
     calculate_viability (RetirementPlanner fixture_inputs) 0 0 = Inr (d, True, Solvent)
     \<and> length d = 25
     \<and> map Year d = [1 ..< 26]
     \<and> sorted_wrt (<) (map Year d)
     \<and> map Expenses_Net d = map (\<lambda>y. 4000 * 1.025 ^ (y - 1)) [1 ..< 26]
     \<and> map Withdrawal_Gross d
         = map (\<lambda>y. max 0 (4000 * 1.025 ^ (y - 1) - (1500 + 500 * 1.03 ^ (y - 1))) / 0.85)
             [1 ..< 26]
     \<and> map (\<lambda>r. \<lfloor>Balance r\<rfloor>) d = [506986, 513237, 518672, 523200, 526723, 529139, 530333, 530184, 528560, 525319, 520308, 513363, 504306, 492944, 479073, 462470, 442896, 420093, 393785, 363674, 329438, 290734, 247189, 198406, 143956]
     \<and> map (\<lambda>k. map_sum id gross_withdrawal
                 (months (RetirementPlanner fixture_inputs) 0 0 [1 ..< Suc k]
                    (sim_init (RetirementPlanner fixture_inputs))))
           [1 ..< 13]
         = replicate 12 (Inr (max 0 (4000 - 2000) / 0.85))
     \<and> Withdrawal_Gross (hd d) = max 0 (4000 - 2000) / 0.85"
proof -
  define P where "P = RetirementPlanner fixture_inputs"
  note dp = fixture_planner [folded P_def]
  note ff = fixture_fields [folded P_def]
  have sol: "is_solvent (run P 0 0 (12 * 25))"
    using fixture_year_25 by (simp add: P_def)
  then have msg: "insolvency_msg (run P 0 0 (12 * 25)) = Solvent"
    by (rule run_solvent_msg [OF dp(1)])
  have cv: "calculate_viability P 0 0 = Inr (map (sample P 0 0) [1 ..< Suc 25], True, Solvent)"
    using calculate_viability_samples [OF dp(1) dp(2), of 0 0] sol msg by simp
  have yr: "map Year (map (sample P 0 0) [1 ..< Suc 25]) = [1 ..< Suc 25]"
    by (simp add: sample_def comp_def)
  have idx: "(12 * y - 1) div 12 = y - 1" if "1 \<le> y" for y :: nat
    using that by (cases y) simp_all
  have ex: "Expenses_Net (sample P 0 0 y) = 4000 * 1.025 ^ (y - 1)" if "1 \<le> y" for y
    using run_escalation [OF dp(1), of 0 0 "12 * y"] idx [OF that]
    by (simp add: sample_def ff)
  have wd: "Withdrawal_Gross (sample P 0 0 y)
            = max 0 (4000 * 1.025 ^ (y - 1) - (1500 + 500 * 1.03 ^ (y - 1))) / 0.85"
    if y1: "1 \<le> y" for y
  proof -
    obtain k where k: "12 * y = Suc k"
      using y1 not0_implies_Suc [of "12 * y"] by auto
    then have "k div 12 = y - 1"
      using idx [OF y1] by simp
    then show ?thesis
      using run_withdrawal_in_year [OF dp(1), of 0 0 k] k
      by (simp add: sample_def withdrawal_in_year_def ff)
  qed
  have s26: "Suc 25 = (26 :: nat)"
    by simp
  have "map (\<lambda>y. Expenses_Net (sample P 0 0 y)) [1 ..< 26]
        = map (\<lambda>y. 4000 * 1.025 ^ (y - 1)) [1 ..< 26]"
    by (rule map_cong [OF refl]) (simp only: ex set_upt atLeastLessThan_iff)
  then have exs: "map Expenses_Net (map (sample P 0 0) [1 ..< Suc 25])
             = map (\<lambda>y. 4000 * 1.025 ^ (y - 1)) [1 ..< 26]"
    by (simp only: map_map comp_def s26)
  have "map (\<lambda>y. Withdrawal_Gross (sample P 0 0 y)) [1 ..< 26]
        = map (\<lambda>y. max 0 (4000 * 1.025 ^ (y - 1) - (1500 + 500 * 1.03 ^ (y - 1))) / 0.85)
            [1 ..< 26]"
    by (rule map_cong [OF refl]) (simp only: wd set_upt atLeastLessThan_iff)
  then have wds: "map Withdrawal_Gross (map (sample P 0 0) [1 ..< Suc 25])
             = map (\<lambda>y. max 0 (4000 * 1.025 ^ (y - 1) - (1500 + 500 * 1.03 ^ (y - 1))) / 0.85)
                 [1 ..< 26]"
    by (simp only: map_map comp_def s26)
  have years: "[1 ..< Suc 25] = [1, 2, 3, 4, 5, 6, 7, 8, 9, 10, 11, 12, 13, 14, 15, 16, 17, 18, 19,
      20, 21, 22, 23, 24, 25 :: nat]"
    by (simp add: upt_conv_Cons)
  have bal: "map (\<lambda>r. \<lfloor>Balance r\<rfloor>) (map (sample P 0 0) [1 ..< Suc 25]) = [506986, 513237, 518672, 523200, 526723, 529139, 530333, 530184, 528560, 525319, 520308, 513363, 504306, 492944, 479073, 462470, 442896, 420093, 393785, 363674, 329438, 290734, 247189, 198406, 143956]"
    unfolding years using fixture_floors [folded P_def] by (simp add: sample_def)
  have gw: "gross_withdrawal (run P 0 0 k) = max 0 (4000 - 2000) / 0.85"
    if "1 \<le> k" "k \<le> 12" for k
    using first_year_withdrawal [OF dp(1) that, of 0 0] by (simp add: dp)
  have "map_sum id gross_withdrawal (months P 0 0 [1 ..< Suc k] (sim_init P))
          = Inr (max 0 (4000 - 2000) / 0.85)"
    if "k \<in> set [1 ..< 13]" for k
    unfolding months_upt_run [OF dp(1)] using gw [of k] that by simp
  then have "map (\<lambda>k. map_sum id gross_withdrawal (months P 0 0 [1 ..< Suc k] (sim_init P)))
               [1 ..< 13]
             = map (\<lambda>k. Inr (max 0 (4000 - 2000) / 0.85)) [1 ..< 13]"
    by (intro map_cong refl)
  then have first_year: "map (\<lambda>k. map_sum id gross_withdrawal
                 (months P 0 0 [1 ..< Suc k] (sim_init P))) [1 ..< 13]
             = replicate 12 (Inr (max 0 (4000 - 2000) / 0.85))"
    by (simp only: map_replicate_const length_upt) simp
  have "[1 ..< Suc 25] = 1 # [2 ..< Suc 25]"
    by (simp add: upt_conv_Cons)
  then have "hd (map (sample P 0 0) [1 ..< Suc 25]) = sample P 0 0 1"
    by simp
  then have hd: "Withdrawal_Gross (hd (map (sample P 0 0) [1 ..< Suc 25]))
                 = max 0 (4000 - 2000) / 0.85"
    using gw [of 12] by (simp add: sample_def)
  have srt: "sorted_wrt (<) [1 ..< Suc 25]"
    by (rule sorted_wrt_upt)
  have len: "length (map (sample P 0 0) [1 ..< Suc 25]) = 25"
    by simp
  have yr': "map Year (map (sample P 0 0) [1 ..< Suc 25]) = [1 ..< 26]"
    using yr by simp
  have srt': "sorted_wrt (<) (map Year (map (sample P 0 0) [1 ..< Suc 25]))"
    unfolding yr by (rule srt)
  show ?thesis
    unfolding P_def [symmetric]
    by (rule exI [of _ "map (sample P 0 0) [1 ..< Suc 25]"])
       (intro conjI cv len yr' srt' exs wds bal first_year hd)
qed

section \<open>A two-year shock of -20%\<close>

lemma shock_below_baseline:
  assumes tax: "tax_rate (self_inputs p) < 1"
    and ret: "- 0.2 < expected_return (self_inputs p)"
    and sol: "is_solvent (run p 0 0 24)"
    and cap: "0 < self_lump_sum p"
    and k: "k < 24"
  shows "balance (run p (- 0.2) 2 (Suc k)) < balance (run p 0 0 (Suc k))"
  using k
proof (induction k)
  case 0
  have t: "tax_rate (self_inputs p) \<noteq> 1" using tax by simp
  define w where "w = gross_withdrawal (run p 0 0 (Suc 0))"
  have ws: "gross_withdrawal (run p (- 0.2) 2 (Suc 0)) = w"
    unfolding w_def by (rule run_gross_withdrawal [OF refl t])
  have sb: "is_solvent (run p 0 0 (Suc 0))"
    by (rule run_solvent_prefix [OF t sol]) simp
  have bb: "balance (run p 0 0 (Suc 0))
            = self_lump_sum p * (1 + expected_return (self_inputs p) / 12) - w"
    using sb run_Suc_is_solvent [OF t, of 0 0 0] run_Suc_balance [OF t, of 0 0 0]
    by (simp add: w_def rate_of_no_shock sim_init_def)
  have pos: "0 < balance (run p 0 0 (Suc 0))"
    by (rule run_solvent_positive [OF t sb])
  have lt: "self_lump_sum p * (1 + (- 0.2) / 12) - w
            < self_lump_sum p * (1 + expected_return (self_inputs p) / 12) - w"
    using cap ret by simp
  have bs: "balance (run p (- 0.2) 2 (Suc 0)) =
      (if self_lump_sum p * (1 + (- 0.2) / 12) - w \<le> 0 then 0
       else self_lump_sum p * (1 + (- 0.2) / 12) - w)"
    using run_Suc_balance [OF t, of "- 0.2" 2 0] ws
    by (simp add: rate_of_shock_two_years sim_init_def)
  show ?case
    unfolding bs using lt pos bb by (simp split: if_splits)
next
  case (Suc k)
  have t: "tax_rate (self_inputs p) \<noteq> 1" using tax by simp
  define w where "w = gross_withdrawal (run p 0 0 (Suc (Suc k)))"
  have ws: "gross_withdrawal (run p (- 0.2) 2 (Suc (Suc k))) = w"
    unfolding w_def by (rule run_gross_withdrawal [OF refl t])
  define b0 where "b0 = balance (run p 0 0 (Suc k))"
  define b1 where "b1 = balance (run p (- 0.2) 2 (Suc k))"
  have ih: "b1 < b0"
    unfolding b0_def b1_def using Suc by simp
  have sk: "is_solvent (run p 0 0 (Suc k))"
    by (rule run_solvent_prefix [OF t sol]) (use Suc.prems in simp)
  have b0pos: "0 < b0"
    unfolding b0_def by (rule run_solvent_positive [OF t sk])
  have sb: "is_solvent (run p 0 0 (Suc (Suc k)))"
    by (rule run_solvent_prefix [OF t sol]) (use Suc.prems in simp)
  have bb: "balance (run p 0 0 (Suc (Suc k)))
            = b0 * (1 + expected_return (self_inputs p) / 12) - w"
    using sb run_Suc_is_solvent [OF t, of 0 0 "Suc k"] run_Suc_balance [OF t, of 0 0 "Suc k"]
    unfolding w_def b0_def rate_of_no_shock by (simp del: run.simps)
  have pos: "0 < balance (run p 0 0 (Suc (Suc k)))"
    by (rule run_solvent_positive [OF t sb])
  have g: "(0::real) < 1 + (- 0.2) / 12"
    by simp
  have "b1 * (1 + (- 0.2) / 12) \<le> b0 * (1 + (- 0.2) / 12)"
    using ih g by (simp add: mult_right_mono del: distrib_left)
  also have "\<dots> < b0 * (1 + expected_return (self_inputs p) / 12)"
    using b0pos ret by (simp add: mult_strict_left_mono)
  finally have lt: "b1 * (1 + (- 0.2) / 12) - w
            < b0 * (1 + expected_return (self_inputs p) / 12) - w"
    by simp
  have r: "rate_of p (- 0.2) 2 (Suc (Suc k)) = (- 0.2) / 12"
    by (rule rate_of_shock_two_years) (use Suc.prems in simp)
  have bs: "balance (run p (- 0.2) 2 (Suc (Suc k))) =
      (if b1 * (1 + (- 0.2) / 12) - w \<le> 0 \<and> is_solvent (run p (- 0.2) 2 (Suc k)) then 0
       else b1 * (1 + (- 0.2) / 12) - w)"
    using run_Suc_balance [OF t, of "- 0.2" 2 "Suc k"]
    unfolding ws r b1_def .
  show ?case
    unfolding bs bb using lt pos bb by (simp split: if_splits)
qed

text \<open>
  Claim C7, as amended. For a scenario with tax rate below 1, a horizon of at least 2 years
  and an expected return above -20%, if the year-2 sampled balance of the run without shock
  is strictly positive, then the run with a shock of -20% for the first 2 years has a
  year-2 sampled balance strictly below it.
\<close>

theorem shock_lowers_year_two_balance:
  assumes tax: "tax_rate i < 1"
    and hor: "2 \<le> horizon_years i"
    and ret: "- 0.2 < expected_return i"
    and base: "calculate_viability (RetirementPlanner i) 0 0 = Inr (d0, s0, m0)"
    and b0: "balance_at_year d0 2 = Some b0"
    and pos: "0 < b0"
  shows "\<exists>d1 s1 m1 b1.
           calculate_viability (RetirementPlanner i) (- 0.2) 2 = Inr (d1, s1, m1)
           \<and> balance_at_year d1 2 = Some b1 \<and> b1 < b0"
proof -
  define p where "p = RetirementPlanner i"
  define n where "n = nat (horizon_years i)"
  have inp: "self_inputs p = i"
    by (simp add: p_def RetirementPlanner_def)
  have tax': "tax_rate (self_inputs p) < 1"
    using tax inp by simp
  then have t: "tax_rate (self_inputs p) \<noteq> 1"
    by simp
  have ret': "- 0.2 < expected_return (self_inputs p)"
    using ret inp by simp
  have hm: "self_horizon_months p = int (12 * n)"
    using hor by (simp add: p_def n_def RetirementPlanner_def)
  have n2: "2 \<le> n"
    using hor by (simp add: n_def)
  have d0: "d0 = map (sample p 0 0) [1 ..< Suc n]"
    using base calculate_viability_samples [OF t hm, of 0 0] by (simp add: p_def)
  have "balance_at_year d0 2 = Some (balance (run p 0 0 (12 * 2)))"
    unfolding d0 by (rule balance_at_year_samples) (use n2 in simp_all)
  then have b0_eq: "b0 = balance (run p 0 0 24)"
    using b0 by simp
  have rates: "- 1 \<le> rate_of p 0 0 m" for m
    using ret' by (simp add: rate_of_no_shock)
  have sol: "is_solvent (run p 0 0 24)"
  proof (rule ccontr)
    assume "\<not> is_solvent (run p 0 0 24)"
    then have "balance (run p 0 0 24) \<le> 0"
      using run_insolvent_nonpositive [OF tax', of 24 0 0] rates by simp
    then show False
      using pos b0_eq by simp
  qed
  have s1: "is_solvent (run p 0 0 (Suc 0))"
    by (rule run_solvent_prefix [OF t sol]) simp
  have w: "0 \<le> gross_withdrawal (run p 0 0 (Suc 0))"
    by (rule gross_withdrawal_nonneg [OF tax'])
  have "0 < self_lump_sum p * (1 + expected_return (self_inputs p) / 12)
            - gross_withdrawal (run p 0 0 (Suc 0))"
    using s1 run_Suc_is_solvent [OF t, of 0 0 0] by (simp add: rate_of_no_shock sim_init_def)
  then have "0 < self_lump_sum p * (1 + expected_return (self_inputs p) / 12)"
    using w by simp
  moreover have "0 < 1 + expected_return (self_inputs p) / 12"
    using ret' by simp
  ultimately have cap: "0 < self_lump_sum p"
    by (simp add: zero_less_mult_iff)
  have lt: "balance (run p (- 0.2) 2 24) < balance (run p 0 0 24)"
    using shock_below_baseline [OF tax' ret' sol cap, of 23] by simp
  have cv: "calculate_viability p (- 0.2) 2 =
      Inr (map (sample p (- 0.2) 2) [1 ..< Suc n], is_solvent (run p (- 0.2) 2 (12 * n)),
           insolvency_msg (run p (- 0.2) 2 (12 * n)))"
    by (rule calculate_viability_samples [OF t hm])
  have "balance_at_year (map (sample p (- 0.2) 2) [1 ..< Suc n]) 2
        = Some (balance (run p (- 0.2) 2 (12 * 2)))"
    by (rule balance_at_year_samples) (use n2 in simp_all)
  then have "balance_at_year (map (sample p (- 0.2) 2) [1 ..< Suc n]) 2
        = Some (balance (run p (- 0.2) 2 24)) \<and> balance (run p (- 0.2) 2 24) < b0"
    using lt b0_eq by simp
  then show ?thesis
    using cv unfolding p_def by blast
qed

lemma plain_baseline_run:
  "calculate_viability (plain 100 1 0 2 0) 0 0 =
     Inr ([\<lparr>Year = 1, Expenses_Net = 1, Withdrawal_Gross = 1, Balance = 88\<rparr>,
           \<lparr>Year = 2, Expenses_Net = 1, Withdrawal_Gross = 1, Balance = 76\<rparr>], True, Solvent)"
  unfolding calculate_viability_def month_range_plain_2
  by (simp add: plain_def RetirementPlanner_def sim_init_def month_def Let_def)

theorem shock_lowers_year_two_balance_witness:
  "\<exists>d1 s1 m1 b1.
     calculate_viability (plain 100 1 0 2 0) (- 0.2) 2 = Inr (d1, s1, m1)
     \<and> balance_at_year d1 2 = Some b1 \<and> b1 < 76"
  using shock_lowers_year_two_balance [of
      "\<lparr>lump_sum = 100, other_income = 0, current_dividends = 0, target_payout = 1,
        tax_rate = 0, horizon_years = 2, inflation_rate = 0, gdp_growth = 0,
        expected_return = 0\<rparr>"
      "[\<lparr>Year = 1, Expenses_Net = 1, Withdrawal_Gross = 1, Balance = 88\<rparr>,
        \<lparr>Year = 2, Expenses_Net = 1, Withdrawal_Gross = 1, Balance = 76\<rparr>]" True Solvent 76]
    plain_baseline_run
  by (simp add: plain_def balance_at_year_def)

text \<open>
  Claim C7 as stated fails: with an expected return of -24% and no spending, the shocked run
  (at -20% for two years) ends year 2 with more than the run without shock.
\<close>

theorem shock_year_two_counterexample:
  "map_sum id (\<lambda>(d, s, m). balance_at_year d 2)
     (calculate_viability (plain 100 0 0 2 (- 0.24)) (- 0.2) 2) = Inr (Some (100 * (59 / 60) ^ 24))
   \<and> map_sum id (\<lambda>(d, s, m). balance_at_year d 2)
     (calculate_viability (plain 100 0 0 2 (- 0.24)) 0 0) = Inr (Some (100 * (49 / 50) ^ 24))
   \<and> \<not> (100 * (59 / 60) ^ 24 < (100 * (49 / 50) ^ 24 :: real))"
  unfolding calculate_viability_def month_range_plain_2
  by (simp add: plain_def RetirementPlanner_def sim_init_def month_def Let_def balance_at_year_def
        power_divide)

section \<open>The withdrawal-rate classifier\<close>



text \<open>
  Claim C5 as stated fails where the rounding moves the computed rate across a threshold.
  With target spend 3750, fixed income 1500, dividend income 500, capital 500000 and a tax
  rate of 30% (the double of \<open>30 / 100\<close>), the rate \<open>gap * 12 / (1 - tax rate) / capital\<close> is
  6.0%, and is still at most 6.0% when taken at the double, but the computed rate is
  \<open>8646911284551353 / 2 ^ 57\<close>, one place above the double of 0.06, and the tier is DANGER.
\<close>

theorem calculate_swr_health_exact_rate_counterexample:
  "(3750 - (1500 + 500)) * 12 / (1 - 30 / 100) / 500000 = (0.06 :: real)
   \<and> (3750 - (1500 + 500)) * 12 / (1 - binary64 (30 / 100)) / 500000 \<le> (0.06 :: real)
   \<and> calculate_swr_health
        (RetirementPlanner (fixture_inputs\<lparr>target_payout := 3750, tax_rate := binary64 (30 / 100)\<rparr>))
       = Inr (8646911284551353 / 2 ^ 57, ''DANGER (> 6.0%)'')"
  by (simp add: calculate_swr_health_def RetirementPlanner_def fixture_inputs_def binary64_values)

text \<open>
  Claim C10. The classifier reads only target spend, fixed income, dividend income, tax rate
  and starting capital: two scenarios that agree on these five fields get the same result,
  whatever their horizon, inflation rate, dividend-growth rate and expected return.
\<close>

theorem calculate_swr_health_reads_five_fields:
  assumes "target_payout i1 = target_payout i2"
    and "other_income i1 = other_income i2"
    and "current_dividends i1 = current_dividends i2"
    and "tax_rate i1 = tax_rate i2"
    and "lump_sum i1 = lump_sum i2"
  shows "calculate_swr_health (RetirementPlanner i1) = calculate_swr_health (RetirementPlanner i2)"
  using assms by (simp add: calculate_swr_health_def RetirementPlanner_def)

theorem calculate_swr_health_reads_five_fields_witness:
  "calculate_swr_health (RetirementPlanner fixture_inputs)
   = calculate_swr_health
       (RetirementPlanner (fixture_inputs\<lparr>horizon_years := 40, inflation_rate := 0.1,
          gdp_growth := 0, expected_return := - 0.05\<rparr>))"
  using calculate_swr_health_reads_five_fields [of fixture_inputs
    "fixture_inputs\<lparr>horizon_years := 40, inflation_rate := 0.1, gdp_growth := 0,
       expected_return := - 0.05\<rparr>"]
  by simp

end
